theory Spec2Isabelle
  imports Main
begin

section \<open>Python values used by app.py\<close>

text \<open>
  Text is modelled as \<^typ>\<open>string\<close> (8-bit characters); the two emoji of the alert
  messages are written as their UTF-8 bytes.  Console output (\<^verbatim>\<open>print\<close>) is not part
  of the model.  A raised \<^verbatim>\<open>Exception\<close> is a value of type \<open>exn\<close>; results of code
  that can raise are sums with the exception on the left.
\<close>

datatype exn = PyException string

text \<open>
  A value read from JSON (\<^verbatim>\<open>json.load\<close>, \<^verbatim>\<open>json.loads\<close>).  Python floats are kept
  abstract as the type parameter \<open>'f\<close>; a JSON object is the list of its items.
\<close>

datatype 'f json =
    JNull
  | JBool bool
  | JInt int
  | JFloat 'f
  | JStr string
  | JArr "'f json list"
  | JObj "(string \<times> 'f json) list"

text \<open>
  The operations of the Python runtime on floats and on text that the program calls and
  that are not defined in the repository: \<^verbatim>\<open>float(str)\<close>, \<^verbatim>\<open>float(int)\<close>, the truth
  value of a float, the format \<^verbatim>\<open>{:.0f}\<close>, \<^verbatim>\<open>int(float)\<close>, \<^verbatim>\<open>int(str)\<close> and
  \<^verbatim>\<open>json.loads\<close>.  \<open>None\<close> stands for the exception the call raises.
\<close>

record 'f runtime =
  float_of_str :: "string \<Rightarrow> 'f option"
  float_of_int :: "int \<Rightarrow> 'f option"
  float_nonzero :: "'f \<Rightarrow> bool"
  format_0f :: "'f \<Rightarrow> string"
  int_of_float :: "'f \<Rightarrow> int option"
  int_of_str :: "string \<Rightarrow> int option"
  json_loads :: "string \<Rightarrow> 'f json option"

text \<open>\<^verbatim>\<open>bool(v)\<close> of a JSON value.\<close>

fun truthy :: "'f runtime \<Rightarrow> 'f json \<Rightarrow> bool" where
  "truthy rt JNull = False"
| "truthy rt (JBool b) = b"
| "truthy rt (JInt n) = (n \<noteq> 0)"
| "truthy rt (JFloat x) = float_nonzero rt x"
| "truthy rt (JStr s) = (s \<noteq> [])"
| "truthy rt (JArr xs) = (xs \<noteq> [])"
| "truthy rt (JObj kvs) = (kvs \<noteq> [])"

text \<open>\<^verbatim>\<open>d.get(k)\<close>: the value, or \<^verbatim>\<open>None\<close> (here \<open>JNull\<close>) when the key is missing.\<close>

definition dict_get :: "(string \<times> 'f json) list \<Rightarrow> string \<Rightarrow> 'f json" where
  "dict_get d k = (case map_of d k of None \<Rightarrow> JNull | Some v \<Rightarrow> v)"

text \<open>\<^verbatim>\<open>d[k] = v\<close>.\<close>

fun dict_set :: "string \<Rightarrow> 'f json \<Rightarrow> (string \<times> 'f json) list \<Rightarrow> (string \<times> 'f json) list" where
  "dict_set k v [] = [(k, v)]"
| "dict_set k v ((k', v') # kvs) =
     (if k' = k then (k, v) # kvs else (k', v') # dict_set k v kvs)"

text \<open>\<^verbatim>\<open>float(v)\<close> and \<^verbatim>\<open>int(v)\<close> of a JSON value; \<open>None\<close> when Python raises.\<close>

fun py_float :: "'f runtime \<Rightarrow> 'f json \<Rightarrow> 'f option" where
  "py_float rt JNull = None"
| "py_float rt (JBool b) = float_of_int rt (if b then 1 else 0)"
| "py_float rt (JInt n) = float_of_int rt n"
| "py_float rt (JFloat x) = Some x"
| "py_float rt (JStr s) = float_of_str rt s"
| "py_float rt (JArr xs) = None"
| "py_float rt (JObj kvs) = None"

fun py_int :: "'f runtime \<Rightarrow> 'f json \<Rightarrow> int option" where
  "py_int rt JNull = None"
| "py_int rt (JBool b) = Some (if b then 1 else 0)"
| "py_int rt (JInt n) = Some n"
| "py_int rt (JFloat x) = int_of_float rt x"
| "py_int rt (JStr s) = int_of_str rt s"
| "py_int rt (JArr xs) = None"
| "py_int rt (JObj kvs) = None"

text \<open>\<^verbatim>\<open>str(n)\<close> of an integer, as the f-strings use it.\<close>

function str_nat :: "nat \<Rightarrow> string" where
  "str_nat n =
     (if n < 10 then [''0123456789'' ! n]
      else str_nat (n div 10) @ [''0123456789'' ! (n mod 10)])"
  by pat_completeness auto
termination
  by (relation "measure id") auto

declare str_nat.simps [simp del]

definition str_int :: "int \<Rightarrow> string" where
  "str_int i = (if i < 0 then CHR ''-'' # str_nat (nat (- i)) else str_nat (nat i))"

text \<open>The truth value of an integer (\<^verbatim>\<open>-1\<close> is true).\<close>

definition int_truthy :: "int \<Rightarrow> bool" where
  "int_truthy i = (i \<noteq> 0)"

section \<open>Snapshots and their text\<close>

text \<open>
  The dictionary every adapter returns:
  \<^verbatim>\<open>{percent: float|None, power_plugged: bool|None, secsleft: int|None, source: str}\<close>.
  It has four keys, so it is true in a condition (\<^verbatim>\<open>if snap:\<close>) whenever it is not
  \<^verbatim>\<open>None\<close>.
\<close>

record 'f snapshot =
  percent :: "'f option"
  power_plugged :: "bool option"
  secsleft :: "int option"
  source :: string

text \<open>What the program reads of the \<^verbatim>\<open>psutil\<close> module, when it could be imported.\<close>

record 'f sbattery =
  b_percent :: "'f option"
  b_secsleft :: "int option"
  b_power_plugged :: "bool option"

record 'f psutil_mod =
  sensors_battery :: "exn + 'f sbattery option"
  POWER_TIME_UNLIMITED :: int
  POWER_TIME_UNKNOWN :: int

text \<open>
  \<^verbatim>\<open>format_time_left\<close>.  Each guard is the conditional expression
  \<^verbatim>\<open>(secs == psutil.X) if psutil else -1\<close>.
\<close>

definition format_time_left :: "'f psutil_mod option \<Rightarrow> int option \<Rightarrow> string" where
  "format_time_left psutil secs =
     (case secs of
        None \<Rightarrow> ''unknown''
      | Some s \<Rightarrow>
          if (case psutil of Some ps \<Rightarrow> s = POWER_TIME_UNLIMITED ps | None \<Rightarrow> int_truthy (- 1))
          then ''unlimited''
          else if (case psutil of Some ps \<Rightarrow> s = POWER_TIME_UNKNOWN ps | None \<Rightarrow> int_truthy (- 1))
          then ''unknown''
          else str_int (s div 3600) @ ''h '' @ str_int ((s mod 3600) div 60) @ ''m'')"

text \<open>\<^verbatim>\<open>snapshot_text\<close>.\<close>

definition snapshot_text :: "'f runtime \<Rightarrow> 'f snapshot option \<Rightarrow> string" where
  "snapshot_text rt snap =
     (case snap of
        None \<Rightarrow> ''Battery information not available.''
      | Some s \<Rightarrow>
          (let pct_str = (case percent s of Some pct \<Rightarrow> format_0f rt pct @ ''%'' | None \<Rightarrow> ''n/a'');
               status = (if power_plugged s = Some True then ''Power ON''
                         else if power_plugged s = Some False then ''Power OFF''
                         else ''Unknown'')
           in status @ '' - Battery: '' @ pct_str))"

section \<open>The bot object\<close>

text \<open>
  The fields of \<^verbatim>\<open>PowerMonitorBot\<close> that the core reads and writes.  \<open>mode\<close>, \<open>token\<close>
  and \<open>platform\<close> hold whatever value the configuration dictionary gave.
\<close>

record 'f bot =
  platform :: "'f json"
  poll_interval :: int
  token :: "'f json"
  registered_ids :: "int set"
  admin_ids :: "int set"
  mode :: "'f json"
  prev_plugged :: "bool option"

text \<open>\<^verbatim>\<open>_is_allowed\<close>.\<close>

definition is_allowed :: "'f bot \<Rightarrow> int \<Rightarrow> bool" where
  "is_allowed self chat_id = (if mode self = JStr ''multi'' then True else chat_id \<in> admin_ids self)"

section \<open>The Sampler: the polling loop\<close>

text \<open>The two alert messages of \<^verbatim>\<open>_monitor_loop\<close>; the emoji are UTF-8 bytes.\<close>

definition MSG_ON :: string where
  "MSG_ON = [CHR 0xF0, CHR 0x9F, CHR 0x94, CHR 0x8C] @ '' **Power is ON now**''"

definition MSG_OFF :: string where
  "MSG_OFF = [CHR 0xE2, CHR 0x9A, CHR 0xA1] @ '' **Power is OFF now**''"

text \<open>
  What one call of \<^verbatim>\<open>get_battery_snapshot\<close> gives the loop: an exception, \<^verbatim>\<open>None\<close>
  or a snapshot.
\<close>

type_synonym 'f sample = "exn + 'f snapshot option"

text \<open>
  One iteration of the \<^verbatim>\<open>while\<close> loop, given the result of its probe call.  It returns
  the updated object and the messages handed to \<^verbatim>\<open>_notify_all\<close> in this iteration.  An
  exception of the probe is caught by the iteration's \<^verbatim>\<open>except Exception\<close>.
\<close>

definition tick :: "'f bot \<Rightarrow> 'f sample \<Rightarrow> 'f bot \<times> string list" where
  "tick self smp =
     (case smp of
        Inl e \<Rightarrow> (self, [])
      | Inr None \<Rightarrow> (self, [])
      | Inr (Some snap) \<Rightarrow>
          (let plugged = power_plugged snap in
           if prev_plugged self = None then (self\<lparr>prev_plugged := plugged\<rparr>, [])
           else if plugged \<noteq> None \<and> plugged \<noteq> prev_plugged self
           then (self\<lparr>prev_plugged := plugged\<rparr>,
                 [if plugged = Some True then MSG_ON else MSG_OFF])
           else (self, [])))"

text \<open>The iterations the loop makes before the stop event is set, one per sample.\<close>

fun run_ticks :: "'f bot \<Rightarrow> 'f sample list \<Rightarrow> 'f bot \<times> string list" where
  "run_ticks self [] = (self, [])"
| "run_ticks self (smp # smps) =
     (case tick self smp of
        (self', out) \<Rightarrow>
          (case run_ticks self' smps of (self'', out') \<Rightarrow> (self'', out @ out')))"

text \<open>
  \<^verbatim>\<open>_monitor_loop\<close>: the first read, made before the loop and outside its \<^verbatim>\<open>try\<close>,
  then the iterations.
\<close>

definition monitor_loop :: "'f bot \<Rightarrow> 'f sample \<Rightarrow> 'f sample list \<Rightarrow> exn + 'f bot \<times> string list" where
  "monitor_loop self first smps =
     (case first of
        Inl e \<Rightarrow> Inl e
      | Inr None \<Rightarrow> Inr (run_ticks (self\<lparr>prev_plugged := None\<rparr>) smps)
      | Inr (Some snap) \<Rightarrow> Inr (run_ticks (self\<lparr>prev_plugged := power_plugged snap\<rparr>) smps))"

text \<open>
  The specification's view of a sample sequence: the known plugged values of the
  available snapshots, in order, and the new value at every change between two
  consecutive ones.
\<close>

fun known_plugged :: "'f sample list \<Rightarrow> bool list" where
  "known_plugged [] = []"
| "known_plugged (Inr (Some snap) # smps) =
     (case power_plugged snap of
        Some b \<Rightarrow> b # known_plugged smps
      | None \<Rightarrow> known_plugged smps)"
| "known_plugged (Inr None # smps) = known_plugged smps"
| "known_plugged (Inl e # smps) = known_plugged smps"

definition changes :: "bool list \<Rightarrow> bool list" where
  "changes bs = map snd (filter (\<lambda>(a, b). a \<noteq> b) (zip bs (tl bs)))"

definition alert :: "bool \<Rightarrow> string" where
  "alert plugged_now = (if plugged_now then MSG_ON else MSG_OFF)"

section \<open>The Notifier\<close>

text \<open>
  \<^verbatim>\<open>self.bot.send_message\<close> acts on the outside world \<open>'w\<close>: it returns or raises, and
  leaves a new world.
\<close>

type_synonym 'w sender = "'w \<Rightarrow> int \<Rightarrow> string \<Rightarrow> (exn + unit) \<times> 'w"

text \<open>The \<^verbatim>\<open>for\<close> loop of \<^verbatim>\<open>_notify_all\<close>: every attempt with its outcome.\<close>

fun send_each :: "'w sender \<Rightarrow> string \<Rightarrow> int list \<Rightarrow> 'w \<Rightarrow> (int \<times> (exn + unit)) list \<times> 'w" where
  "send_each send text [] w = ([], w)"
| "send_each send text (cid # cids) w =
     (case send w cid text of
        (r, w') \<Rightarrow>
          (case send_each send text cids w' of (rs, w'') \<Rightarrow> ((cid, r) # rs, w'')))"

text \<open>
  \<^verbatim>\<open>_notify_all\<close>.  \<open>to_list\<close> is \<^verbatim>\<open>list(s)\<close> of a Python set: its elements in the
  set's iteration order.
\<close>

definition notify_all ::
  "(int set \<Rightarrow> int list) \<Rightarrow> 'w sender \<Rightarrow> 'f bot \<Rightarrow> string \<Rightarrow> 'w \<Rightarrow> (int \<times> (exn + unit)) list \<times> 'w" where
  "notify_all to_list send self text w =
     (let recipients = (if mode self = JStr ''multi'' then to_list (registered_ids self)
                        else to_list (admin_ids self))
      in if recipients = [] then ([], w) else send_each send text recipients w)"

text \<open>
  A sender that also records its calls: the world is paired with the list of the calls
  made so far, each the chat id and the text it was given.  It is used to state which
  calls \<^verbatim>\<open>_notify_all\<close> makes.
\<close>

definition logged :: "'w sender \<Rightarrow> ('w \<times> (int \<times> string) list) sender" where
  "logged send =
     (\<lambda>(w, calls) cid text.
        case send w cid text of (r, w') \<Rightarrow> (r, (w', calls @ [(cid, text)])))"

section \<open>The Probe: adapters and the fallback chain\<close>

text \<open>
  \<^verbatim>\<open>str.strip()\<close> and \<^verbatim>\<open>str.lower()\<close> on 8-bit text: the white space and the letters of
  ASCII.
\<close>

definition is_space :: "char \<Rightarrow> bool" where
  "is_space c =
     (c \<in> set [CHR '' '', CHR 0x09, CHR 0x0A, CHR 0x0B, CHR 0x0C, CHR 0x0D,
                CHR 0x1C, CHR 0x1D, CHR 0x1E, CHR 0x1F])"

definition strip :: "string \<Rightarrow> string" where
  "strip s = rev (dropWhile is_space (rev (dropWhile is_space s)))"

definition lower_char :: "char \<Rightarrow> char" where
  "lower_char c =
     (case map_of (zip ''ABCDEFGHIJKLMNOPQRSTUVWXYZ'' ''abcdefghijklmnopqrstuvwxyz'') c of
        Some l \<Rightarrow> l
      | None \<Rightarrow> c)"

definition lower :: "string \<Rightarrow> string" where
  "lower s = map lower_char s"

text \<open>
  A file as \<^verbatim>\<open>os.path.exists\<close> and \<^verbatim>\<open>open(...).read()\<close> see it: missing, present but
  raising when opened or read, or present with its text.
\<close>

datatype file_state = Missing | Unreadable exn | Content string

definition path_exists :: "file_state \<Rightarrow> bool" where
  "path_exists f = (f \<noteq> Missing)"

definition read_file :: "file_state \<Rightarrow> exn + string" where
  "read_file f =
     (case f of
        Missing \<Rightarrow> Inl (PyException ''FileNotFoundError'')
      | Unreadable e \<Rightarrow> Inl e
      | Content s \<Rightarrow> Inr s)"

text \<open>An entry of \<^verbatim>\<open>/sys/class/power_supply\<close>.\<close>

record sys_entry =
  e_name :: string
  e_isdir :: bool
  e_status :: file_state
  e_capacity :: file_state

text \<open>
  What one probe call finds on the host: the \<^verbatim>\<open>psutil\<close> module if it was imported,
  whether \<^verbatim>\<open>/sys/class/power_supply\<close> is a directory, what \<^verbatim>\<open>os.listdir\<close> of it gives
  (its entries, or an exception), and what running \<^verbatim>\<open>termux-battery-status\<close> gives (an
  exception, or the return code and the standard output).
\<close>

record 'f probe_env =
  env_psutil :: "'f psutil_mod option"
  env_sysfs_isdir :: bool
  env_sysfs_listdir :: "exn + sys_entry list"
  env_termux :: "exn + int \<times> string"

text \<open>\<^verbatim>\<open>read_battery_psutil\<close>; \<^verbatim>\<open>bool(b.power_plugged)\<close> makes \<^verbatim>\<open>None\<close> false.\<close>

definition read_battery_psutil :: "'f probe_env \<Rightarrow> 'f snapshot option" where
  "read_battery_psutil env =
     (case env_psutil env of
        None \<Rightarrow> None
      | Some ps \<Rightarrow>
          (case sensors_battery ps of
             Inl e \<Rightarrow> None
           | Inr None \<Rightarrow> None
           | Inr (Some b) \<Rightarrow>
               Some \<lparr>percent = b_percent b,
                     power_plugged = Some (case b_power_plugged b of None \<Rightarrow> False | Some p \<Rightarrow> p),
                     secsleft = b_secsleft b,
                     source = ''psutil''\<rparr>))"

text \<open>
  The second loop of \<^verbatim>\<open>read_battery_linux_sysfs\<close>, over the candidate directories: the
  \<^verbatim>\<open>try\<close> covers the two reads and \<^verbatim>\<open>float(cap)\<close>, and its handler goes on to the next
  candidate.
\<close>

fun scan_candidates :: "'f runtime \<Rightarrow> sys_entry list \<Rightarrow> 'f snapshot option" where
  "scan_candidates rt [] = None"
| "scan_candidates rt (cand # cands) =
     (if path_exists (e_status cand) \<and> path_exists (e_capacity cand) then
        (case read_file (e_status cand) of
           Inl e \<Rightarrow> scan_candidates rt cands
         | Inr status \<Rightarrow>
             (case read_file (e_capacity cand) of
                Inl e \<Rightarrow> scan_candidates rt cands
              | Inr cap \<Rightarrow>
                  (case float_of_str rt (strip cap) of
                     None \<Rightarrow> scan_candidates rt cands
                   | Some pct \<Rightarrow>
                       Some \<lparr>percent = Some pct,
                             power_plugged =
                               Some (lower (strip status) \<in> set [''charging'', ''full'', ''pending_charge'']),
                             secsleft = None,
                             source = ''sysfs:'' @ e_name cand\<rparr>)))
      else scan_candidates rt cands)"

text \<open>
  \<^verbatim>\<open>read_battery_linux_sysfs\<close>.  \<^verbatim>\<open>os.listdir(base)\<close> stands outside every \<^verbatim>\<open>try\<close> of
  the function, so its exception leaves the function.
\<close>

definition read_battery_linux_sysfs :: "'f runtime \<Rightarrow> 'f probe_env \<Rightarrow> exn + 'f snapshot option" where
  "read_battery_linux_sysfs rt env =
     (if \<not> env_sysfs_isdir env then Inr None
      else
        (case env_sysfs_listdir env of
           Inl e \<Rightarrow> Inl e
         | Inr entries \<Rightarrow> Inr (scan_candidates rt (filter e_isdir entries))))"

text \<open>
  \<^verbatim>\<open>read_battery_termux\<close>: the whole body is inside one \<^verbatim>\<open>try\<close>.  A JSON value that is
  not an object has no \<^verbatim>\<open>get\<close>.
\<close>

definition read_battery_termux :: "'f runtime \<Rightarrow> 'f probe_env \<Rightarrow> 'f snapshot option" where
  "read_battery_termux rt env =
     (case env_termux env of
        Inl e \<Rightarrow> None
      | Inr (returncode, stdout) \<Rightarrow>
          if returncode = 0 \<and> stdout \<noteq> [] then
            (case json_loads rt stdout of
               None \<Rightarrow> None
             | Some (JObj d) \<Rightarrow>
                 (if dict_get d ''percentage'' = JNull then
                    Some \<lparr>percent = None,
                          power_plugged = Some (truthy rt (dict_get d ''plugged'')),
                          secsleft = None,
                          source = ''termux-battery-status''\<rparr>
                  else
                    (case py_float rt (dict_get d ''percentage'') of
                       None \<Rightarrow> None
                     | Some pct \<Rightarrow>
                         Some \<lparr>percent = Some pct,
                               power_plugged = Some (truthy rt (dict_get d ''plugged'')),
                               secsleft = None,
                               source = ''termux-battery-status''\<rparr>))
             | Some other \<Rightarrow> None)
          else None)"

text \<open>\<^verbatim>\<open>get_battery_snapshot\<close>.\<close>

definition get_battery_snapshot :: "'f runtime \<Rightarrow> 'f probe_env \<Rightarrow> string \<Rightarrow> exn + 'f snapshot option" where
  "get_battery_snapshot rt env detected_platform =
     (case read_battery_psutil env of
        Some st \<Rightarrow> Inr (Some st)
      | None \<Rightarrow>
          (case (if detected_platform = ''linux'' then read_battery_linux_sysfs rt env
                 else Inr None) of
             Inl e \<Rightarrow> Inl e
           | Inr (Some st) \<Rightarrow> Inr (Some st)
           | Inr None \<Rightarrow>
               if detected_platform = ''android'' then
                 (case read_battery_termux rt env of
                    Some st \<Rightarrow> Inr (Some st)
                  | None \<Rightarrow> read_battery_linux_sysfs rt env)
               else Inr None))"

section \<open>The Registry: persistence and reload\<close>

text \<open>
  A file of the working directory as \<^verbatim>\<open>safe_read_json\<close> sees it: absent, present but not
  readable as JSON (a truncated write, for one), or holding a JSON value.  What
  \<^verbatim>\<open>json.dump\<close> writes, \<^verbatim>\<open>json.load\<close> reads back.
\<close>

datatype 'f stored = Absent | Corrupt | Holds "'f json"

type_synonym 'f disk = "string \<Rightarrow> 'f stored"

definition DATA_FILE :: string where
  "DATA_FILE = ''data.json''"

definition TEMP_DATA_FILE :: string where
  "TEMP_DATA_FILE = ''data.json.tmp''"

text \<open>\<^verbatim>\<open>safe_read_json\<close>.\<close>

definition safe_read_json :: "'f disk \<Rightarrow> string \<Rightarrow> 'f json option" where
  "safe_read_json disk path =
     (case disk path of
        Absent \<Rightarrow> None
      | Corrupt \<Rightarrow> None
      | Holds j \<Rightarrow> Some j)"

text \<open>
  How the three steps of \<^verbatim>\<open>safe_write_json\<close> end: all succeed, \<^verbatim>\<open>open\<close> of the temporary
  file raises, \<^verbatim>\<open>json.dump\<close> raises part way, or \<^verbatim>\<open>os.replace\<close> raises.
\<close>

datatype io_outcome = IoOk | OpenFails | DumpFails | ReplaceFails

text \<open>\<^verbatim>\<open>safe_write_json\<close>: the flag it returns and the files it leaves.\<close>

definition safe_write_json :: "io_outcome \<Rightarrow> string \<Rightarrow> 'f json \<Rightarrow> 'f disk \<Rightarrow> bool \<times> 'f disk" where
  "safe_write_json io path data disk =
     (case io of
        OpenFails \<Rightarrow> (False, disk)
      | DumpFails \<Rightarrow> (False, disk(TEMP_DATA_FILE := Corrupt))
      | ReplaceFails \<Rightarrow> (False, disk(TEMP_DATA_FILE := Holds data))
      | IoOk \<Rightarrow> (True, (disk(TEMP_DATA_FILE := Absent))(path := Holds data)))"

text \<open>\<^verbatim>\<open>d.setdefault(k, v)\<close> and \<^verbatim>\<open>d.get(k, default)\<close>.\<close>

definition setdefault :: "string \<Rightarrow> 'f json \<Rightarrow> (string \<times> 'f json) list \<Rightarrow> (string \<times> 'f json) list" where
  "setdefault k v d = (case map_of d k of None \<Rightarrow> dict_set k v d | Some old \<Rightarrow> d)"

definition dict_get_default :: "(string \<times> 'f json) list \<Rightarrow> string \<Rightarrow> 'f json \<Rightarrow> 'f json" where
  "dict_get_default d k dflt = (case map_of d k of None \<Rightarrow> dflt | Some v \<Rightarrow> v)"

text \<open>
  \<^verbatim>\<open>_persist_registered\<close>.  \<open>to_list\<close> is \<^verbatim>\<open>list(s)\<close> of a Python set.  A value read from
  the file that is true and is not an object has no \<^verbatim>\<open>setdefault\<close>; the exception is
  caught by the function's \<^verbatim>\<open>except\<close> and nothing is written.
\<close>

definition persist_registered ::
  "(int set \<Rightarrow> int list) \<Rightarrow> 'f runtime \<Rightarrow> io_outcome \<Rightarrow> 'f bot \<Rightarrow> 'f disk \<Rightarrow> 'f disk" where
  "persist_registered to_list rt io self disk =
     (case (case safe_read_json disk DATA_FILE of
              None \<Rightarrow> JObj []
            | Some j \<Rightarrow> if truthy rt j then j else JObj []) of
        JObj cfg \<Rightarrow>
          snd (safe_write_json io DATA_FILE
            (JObj
              (dict_set ''bot_token'' (token self)
              (dict_set ''platform'' (platform self)
              (dict_set ''poll_interval'' (JInt (poll_interval self))
              (dict_set ''mode'' (mode self)
              (dict_set ''admin_ids'' (JArr (map JInt (to_list (admin_ids self))))
              (dict_set ''registered_ids'' (JArr (map JInt (to_list (registered_ids self))))
              (setdefault ''registered_ids'' (JArr []) cfg))))))))
            disk)
      | other \<Rightarrow> disk)"

text \<open>
  The registry part of the command handlers: the \<^verbatim>\<open>register\<close> callback, \<^verbatim>\<open>unregister\<close>,
  and \<^verbatim>\<open>_reconfigure_console\<close>.  The configuration step that \<^verbatim>\<open>_reconfigure_console\<close>
  calls is outside the core; what it returns is the record \<open>setup_result\<close>, and it has
  written the new configuration, with no registered ids, to \<^verbatim>\<open>data.json\<close> itself.
\<close>

definition register_callback ::
  "(int set \<Rightarrow> int list) \<Rightarrow> 'f runtime \<Rightarrow> io_outcome \<Rightarrow> 'f bot \<Rightarrow> int \<Rightarrow> 'f disk \<Rightarrow> 'f bot \<times> 'f disk" where
  "register_callback to_list rt io self cid disk =
     (if mode self = JStr ''admin'' \<and> cid \<notin> admin_ids self then (self, disk)
      else if cid \<notin> registered_ids self then
        (self\<lparr>registered_ids := insert cid (registered_ids self)\<rparr>,
         persist_registered to_list rt io
           (self\<lparr>registered_ids := insert cid (registered_ids self)\<rparr>) disk)
      else (self, disk))"

definition handle_unregister ::
  "(int set \<Rightarrow> int list) \<Rightarrow> 'f runtime \<Rightarrow> io_outcome \<Rightarrow> 'f bot \<Rightarrow> int \<Rightarrow> 'f disk \<Rightarrow> 'f bot \<times> 'f disk" where
  "handle_unregister to_list rt io self cid disk =
     (if cid \<in> registered_ids self then
        (self\<lparr>registered_ids := registered_ids self - {cid}\<rparr>,
         persist_registered to_list rt io
           (self\<lparr>registered_ids := registered_ids self - {cid}\<rparr>) disk)
      else (self, disk))"

record 'f setup_result =
  new_token :: "'f json"
  new_mode :: "'f json"
  new_admin_ids :: "int list"
  new_poll_interval :: int

definition reconfigure_console ::
  "(int set \<Rightarrow> int list) \<Rightarrow> 'f runtime \<Rightarrow> io_outcome \<Rightarrow> io_outcome \<Rightarrow> 'f bot \<Rightarrow> 'f setup_result \<Rightarrow>
     'f disk \<Rightarrow> 'f bot \<times> 'f disk" where
  "reconfigure_console to_list rt io_setup io self new_cfg disk =
     (let disk1 = snd (safe_write_json io_setup DATA_FILE
                    (JObj [(''platform'', platform self), (''bot_token'', new_token new_cfg),
                           (''mode'', new_mode new_cfg),
                           (''admin_ids'', JArr (map JInt (new_admin_ids new_cfg))),
                           (''registered_ids'', JArr []),
                           (''poll_interval'', JInt (new_poll_interval new_cfg))])
                    disk);
          self1 = self\<lparr>token := new_token new_cfg, mode := new_mode new_cfg,
                       admin_ids := set (new_admin_ids new_cfg),
                       poll_interval := new_poll_interval new_cfg\<rparr>
      in (self1, persist_registered to_list rt io self1 disk1))"

text \<open>
  Reload at the next start.  \<^verbatim>\<open>for x in v\<close> over a JSON value; the list comprehension
  \<^verbatim>\<open>[int(x) for x in v if x]\<close> of the constructor, which raises when one \<^verbatim>\<open>int(x)\<close> does;
  and the loops of \<^verbatim>\<open>main\<close> that add \<^verbatim>\<open>int(r)\<close> for every element and skip the ones that
  raise.
\<close>

fun py_iter :: "'f json \<Rightarrow> 'f json list option" where
  "py_iter (JArr xs) = Some xs"
| "py_iter (JStr s) = Some (map (\<lambda>c. JStr [c]) s)"
| "py_iter (JObj d) = Some (map (\<lambda>kv. JStr (fst kv)) d)"
| "py_iter JNull = None"
| "py_iter (JBool b) = None"
| "py_iter (JInt n) = None"
| "py_iter (JFloat x) = None"

fun strict_ints :: "'f runtime \<Rightarrow> 'f json list \<Rightarrow> int list option" where
  "strict_ints rt [] = Some []"
| "strict_ints rt (x # xs) =
     (if truthy rt x then
        (case py_int rt x of
           None \<Rightarrow> None
         | Some n \<Rightarrow> (case strict_ints rt xs of None \<Rightarrow> None | Some ns \<Rightarrow> Some (n # ns)))
      else strict_ints rt xs)"

fun lenient_ints :: "'f runtime \<Rightarrow> 'f json list \<Rightarrow> int list" where
  "lenient_ints rt [] = []"
| "lenient_ints rt (x # xs) =
     (case py_int rt x of
        None \<Rightarrow> lenient_ints rt xs
      | Some n \<Rightarrow> n # lenient_ints rt xs)"

text \<open>
  \<^verbatim>\<open>PowerMonitorBot.__init__\<close>, the fields of the model: \<open>detected\<close> is
  \<^verbatim>\<open>detect_platform()\<close>.  The Telegram client and the handlers it also sets up belong to
  the transport.
\<close>

definition init_bot :: "'f runtime \<Rightarrow> string \<Rightarrow> (string \<times> 'f json) list \<Rightarrow> exn + 'f bot" where
  "init_bot rt detected config =
     (case py_int rt (dict_get_default config ''poll_interval'' (JInt 5)) of
        None \<Rightarrow> Inl (PyException ''int() of poll_interval'')
      | Some interval \<Rightarrow>
          if \<not> truthy rt (dict_get config ''bot_token'')
          then Inl (PyException ''ValueError: Bot token missing in configuration.'')
          else
            (case py_iter (dict_get_default config ''registered_ids'' (JArr [])) of
               None \<Rightarrow> Inl (PyException ''TypeError: not iterable'')
             | Some rs \<Rightarrow>
                 (case strict_ints rt rs of
                    None \<Rightarrow> Inl (PyException ''int() of a registered id'')
                  | Some reg \<Rightarrow>
                      (case py_iter (dict_get_default config ''admin_ids'' (JArr [])) of
                         None \<Rightarrow> Inl (PyException ''TypeError: not iterable'')
                       | Some ads \<Rightarrow>
                           (case strict_ints rt ads of
                              None \<Rightarrow> Inl (PyException ''int() of an admin id'')
                            | Some adm \<Rightarrow>
                                Inr \<lparr>platform = dict_get_default config ''platform'' (JStr detected),
                                     poll_interval = interval,
                                     token = dict_get config ''bot_token'',
                                     registered_ids = set reg,
                                     admin_ids = set adm,
                                     mode = dict_get_default config ''mode'' (JStr ''multi''),
                                     prev_plugged = None\<rparr>)))))"

text \<open>
  \<^verbatim>\<open>main\<close> from the point where the value read from \<^verbatim>\<open>data.json\<close> is true in a
  condition: it records the detected platform (and rewrites the file when it changed
  it), checks the token, builds the object and adds the ids of the configuration again.
\<close>

definition with_platform :: "string \<Rightarrow> (string \<times> 'f json) list \<Rightarrow> (string \<times> 'f json) list" where
  "with_platform platform_name cfg =
     (if dict_get cfg ''platform'' \<noteq> JStr platform_name
      then dict_set ''platform'' (JStr platform_name) cfg else cfg)"

definition main_rewrite :: "io_outcome \<Rightarrow> string \<Rightarrow> (string \<times> 'f json) list \<Rightarrow> 'f disk \<Rightarrow> 'f disk" where
  "main_rewrite io platform_name cfg disk =
     (if dict_get cfg ''platform'' \<noteq> JStr platform_name
      then snd (safe_write_json io DATA_FILE (JObj (with_platform platform_name cfg)) disk)
      else disk)"

definition main_bot :: "'f runtime \<Rightarrow> string \<Rightarrow> 'f json \<Rightarrow> exn + 'f bot" where
  "main_bot rt platform_name cfg_json =
     (case cfg_json of
        JObj cfg0 \<Rightarrow>
          (let cfg = with_platform platform_name cfg0 in
           if \<not> truthy rt (dict_get cfg ''bot_token'')
           then Inl (PyException ''SystemExit'')
           else
             (case init_bot rt platform_name cfg of
                Inl e \<Rightarrow> Inl (PyException ''SystemExit'')
              | Inr pm \<Rightarrow>
                  (case py_iter (dict_get_default cfg ''registered_ids'' (JArr [])) of
                     None \<Rightarrow> Inl (PyException ''TypeError: not iterable'')
                   | Some rs \<Rightarrow>
                       (case py_iter (dict_get_default cfg ''admin_ids'' (JArr [])) of
                          None \<Rightarrow> Inl (PyException ''TypeError: not iterable'')
                        | Some ads \<Rightarrow>
                            Inr (pm\<lparr>registered_ids := registered_ids pm \<union> set (lenient_ints rt rs),
                                    admin_ids := admin_ids pm \<union> set (lenient_ints rt ads)\<rparr>)))))
      | other \<Rightarrow> Inl (PyException ''AttributeError''))"

text \<open>
  The round trip of the specification: the value in \<^verbatim>\<open>data.json\<close> is true, and the
  object \<^verbatim>\<open>main\<close> builds from it has the subscriber set, the admin set and the mode of
  \<open>self\<close>.
\<close>

definition reload_agrees :: "'f runtime \<Rightarrow> string \<Rightarrow> 'f disk \<Rightarrow> 'f bot \<Rightarrow> bool" where
  "reload_agrees rt platform_name disk self =
     (case safe_read_json disk DATA_FILE of
        None \<Rightarrow> False
      | Some j \<Rightarrow>
          truthy rt j \<and>
          (case main_bot rt platform_name j of
             Inl e \<Rightarrow> False
           | Inr pm \<Rightarrow>
               registered_ids pm = registered_ids self \<and> admin_ids pm = admin_ids self
               \<and> mode pm = mode self))"

section \<open>Verified properties\<close>

subsection \<open>Sampler\<close>

lemma changes_rec:
  "changes (x # y # ys) = (if x = y then changes (y # ys) else y # changes (y # ys))"
  by (simp add: changes_def)

lemma run_ticks_tracking:
  "prev_plugged self = Some p \<Longrightarrow>
   run_ticks self smps =
     (self\<lparr>prev_plugged := Some (last (p # known_plugged smps))\<rparr>,
      map alert (changes (p # known_plugged smps)))"
proof (induction smps arbitrary: self p)
  case Nil
  then show ?case by (simp add: changes_def)
next
  case (Cons smp smps)
  show ?case
  proof (cases smp)
    case (Inl e)
    with Cons show ?thesis by (simp add: tick_def)
  next
    case (Inr so)
    show ?thesis
    proof (cases so)
      case None
      with Inr Cons show ?thesis by (simp add: tick_def)
    next
      case (Some snap)
      show ?thesis
      proof (cases "power_plugged snap")
        case None
        with Some Inr Cons show ?thesis by (simp add: tick_def)
      next
        case (Some b)
        show ?thesis
        proof (cases "b = p")
          case True
          with Some \<open>so = Some snap\<close> Inr Cons show ?thesis
            by (simp add: tick_def changes_rec)
        next
          case False
          have "prev_plugged (self\<lparr>prev_plugged := Some b\<rparr>) = Some b" by simp
          from Cons.IH[OF this] False Some \<open>so = Some snap\<close> Inr Cons.prems show ?thesis
            by (simp add: tick_def changes_rec alert_def)
        qed
      qed
    qed
  qed
qed

lemma run_ticks_uninitialized:
  "prev_plugged self = None \<Longrightarrow>
   run_ticks self smps =
     (self\<lparr>prev_plugged :=
        (if known_plugged smps = [] then None else Some (last (known_plugged smps)))\<rparr>,
      map alert (changes (known_plugged smps)))"
proof (induction smps arbitrary: self)
  case Nil
  then show ?case by (simp add: changes_def)
next
  case (Cons smp smps)
  show ?case
  proof (cases smp)
    case (Inl e)
    with Cons show ?thesis by (simp add: tick_def)
  next
    case (Inr so)
    show ?thesis
    proof (cases so)
      case None
      with Inr Cons show ?thesis by (simp add: tick_def)
    next
      case (Some snap)
      show ?thesis
      proof (cases "power_plugged snap")
        case None
        with Some Inr Cons show ?thesis by (simp add: tick_def)
      next
        case (Some b)
        have "prev_plugged (self\<lparr>prev_plugged := Some b\<rparr>) = Some b" by simp
        from run_ticks_tracking[OF this, of smps] Some \<open>so = Some snap\<close> Inr Cons.prems
        show ?thesis by (simp add: tick_def)
      qed
    qed
  qed
qed

lemma run_ticks_append:
  "run_ticks self (xs @ ys) =
     (case run_ticks self xs of
        (self', out) \<Rightarrow> (case run_ticks self' ys of (self'', out') \<Rightarrow> (self'', out @ out')))"
  by (induction xs arbitrary: self) (auto split: prod.splits)

text \<open>
  Claim C1.  For a first read that returns (a snapshot or \<^verbatim>\<open>None\<close>) and any finite
  sequence of later probe results, \<^verbatim>\<open>_monitor_loop\<close> calls \<^verbatim>\<open>_notify_all\<close> once for every
  change between two consecutive known plugged values of the available snapshots, and
  for nothing else: unavailable samples, samples with an unknown plugged value and
  iterations whose probe raised are skipped.  The number of calls is the number of
  differing consecutive pairs, and the message of a call is the power-on text when the
  new value is true and the power-off text when it is false.
\<close>

theorem monitor_loop_notifications:
  "monitor_loop self (Inr first) smps =
     Inr (self\<lparr>prev_plugged :=
            (if known_plugged (Inr first # smps) = [] then None
             else Some (last (known_plugged (Inr first # smps))))\<rparr>,
          map alert (changes (known_plugged (Inr first # smps))))
   \<and> length (map alert (changes (known_plugged (Inr first # smps)))) =
       length (filter (\<lambda>(a, b). a \<noteq> b)
         (zip (known_plugged (Inr first # smps)) (tl (known_plugged (Inr first # smps)))))
   \<and> alert True = MSG_ON \<and> alert False = MSG_OFF \<and> MSG_ON \<noteq> MSG_OFF"
proof -
  have loop: "monitor_loop self (Inr first) smps =
     Inr (self\<lparr>prev_plugged :=
            (if known_plugged (Inr first # smps) = [] then None
             else Some (last (known_plugged (Inr first # smps))))\<rparr>,
          map alert (changes (known_plugged (Inr first # smps))))"
  proof (cases first)
    case None
    have "prev_plugged (self\<lparr>prev_plugged := None\<rparr>) = None" by simp
    from run_ticks_uninitialized[OF this, of smps] None show ?thesis
      by (simp add: monitor_loop_def)
  next
    case (Some snap)
    show ?thesis
    proof (cases "power_plugged snap")
      case None
      have "prev_plugged (self\<lparr>prev_plugged := None\<rparr>) = None" by simp
      from run_ticks_uninitialized[OF this, of smps] None Some show ?thesis
        by (simp add: monitor_loop_def)
    next
      case (Some b)
      have "prev_plugged (self\<lparr>prev_plugged := Some b\<rparr>) = Some b" by simp
      from run_ticks_tracking[OF this, of smps] Some \<open>first = Some snap\<close> show ?thesis
        by (simp add: monitor_loop_def)
    qed
  qed
  have count: "length (map alert (changes (known_plugged (Inr first # smps)))) =
       length (filter (\<lambda>(a, b). a \<noteq> b)
         (zip (known_plugged (Inr first # smps)) (tl (known_plugged (Inr first # smps)))))"
    by (simp add: changes_def)
  have msgs: "alert True = MSG_ON \<and> alert False = MSG_OFF \<and> MSG_ON \<noteq> MSG_OFF"
    by (simp add: alert_def MSG_ON_def MSG_OFF_def)
  from loop count msgs show ?thesis by blast
qed

text \<open>
  The scenario of the specification: plugged values true, true, false, unavailable,
  false, true give two calls, power off and then power on.
\<close>

theorem monitor_loop_notifications_witness:
  "monitor_loop
     (\<lparr>platform = JStr ''linux'', poll_interval = 5, token = JStr ''1:a'',
       registered_ids = {1, 2, 3}, admin_ids = {}, mode = JStr ''multi'',
       prev_plugged = None\<rparr> :: int bot)
     (Inr (Some \<lparr>percent = Some 80, power_plugged = Some True, secsleft = None, source = ''psutil''\<rparr>))
     [Inr (Some \<lparr>percent = Some 80, power_plugged = Some True, secsleft = None, source = ''psutil''\<rparr>),
      Inr (Some \<lparr>percent = Some 79, power_plugged = Some False, secsleft = None, source = ''psutil''\<rparr>),
      Inr None,
      Inr (Some \<lparr>percent = Some 78, power_plugged = Some False, secsleft = None, source = ''psutil''\<rparr>),
      Inr (Some \<lparr>percent = Some 78, power_plugged = Some True, secsleft = None, source = ''psutil''\<rparr>)]
   = Inr (\<lparr>platform = JStr ''linux'', poll_interval = 5, token = JStr ''1:a'',
           registered_ids = {1, 2, 3}, admin_ids = {}, mode = JStr ''multi'',
           prev_plugged = Some True\<rparr>,
          [MSG_OFF, MSG_ON])"
  using monitor_loop_notifications [of
     "\<lparr>platform = JStr ''linux'', poll_interval = 5, token = JStr ''1:a'',
       registered_ids = {1, 2, 3}, admin_ids = {}, mode = JStr ''multi'',
       prev_plugged = None\<rparr> :: int bot"
     "Some \<lparr>percent = Some 80, power_plugged = Some True, secsleft = None, source = ''psutil''\<rparr>"
     "[Inr (Some \<lparr>percent = Some 80, power_plugged = Some True, secsleft = None, source = ''psutil''\<rparr>),
      Inr (Some \<lparr>percent = Some 79, power_plugged = Some False, secsleft = None, source = ''psutil''\<rparr>),
      Inr None,
      Inr (Some \<lparr>percent = Some 78, power_plugged = Some False, secsleft = None, source = ''psutil''\<rparr>),
      Inr (Some \<lparr>percent = Some 78, power_plugged = Some True, secsleft = None, source = ''psutil''\<rparr>)]"]
  by (simp add: changes_def alert_def)

lemma run_ticks_unavailable: "run_ticks self (replicate n (Inr None)) = (self, [])"
  by (induction n) (simp_all add: tick_def)

lemma tick_keeps_tracking:
  "prev_plugged self \<noteq> None \<Longrightarrow> prev_plugged (fst (tick self smp)) \<noteq> None"
  by (cases smp) (auto simp: tick_def Let_def split: option.splits)

lemma fst_run_ticks_Cons:
  "fst (run_ticks self (smp # smps)) = fst (run_ticks (fst (tick self smp)) smps)"
  by (simp split: prod.splits)

lemma run_ticks_keeps_tracking:
  "prev_plugged self \<noteq> None \<Longrightarrow> prev_plugged (fst (run_ticks self smps)) \<noteq> None"
proof (induction smps arbitrary: self)
  case Nil
  then show ?case by simp
next
  case (Cons smp smps)
  from tick_keeps_tracking[OF Cons.prems, of smp]
  have "prev_plugged (fst (run_ticks (fst (tick self smp)) smps)) \<noteq> None"
    by (rule Cons.IH)
  then show ?case by (simp add: fst_run_ticks_Cons del: run_ticks.simps)
qed

text \<open>
  Claim C2.  In every state of the Sampler, an iteration whose probe call returns
  \<^verbatim>\<open>None\<close> leaves the object, and so the remembered plugged state, as it was and calls
  \<^verbatim>\<open>_notify_all\<close> for nothing; the same holds for any number of such iterations in a row.
  Once a plugged value is remembered, no sequence of samples makes it unknown again.  The
  first read of \<^verbatim>\<open>_monitor_loop\<close> assigns \<^verbatim>\<open>None\<close> when it fails, which is the value the
  constructor gave the field.
\<close>

theorem unavailable_sample_changes_nothing:
  "tick self (Inr None) = (self, [])
   \<and> run_ticks self (replicate n (Inr None)) = (self, [])
   \<and> (prev_plugged self \<noteq> None \<longrightarrow> prev_plugged (fst (run_ticks self smps)) \<noteq> None)
   \<and> monitor_loop (self\<lparr>prev_plugged := None\<rparr>) (Inr None) (replicate n (Inr None)) =
       Inr (self\<lparr>prev_plugged := None\<rparr>, [])"
proof -
  have a: "tick self (Inr None) = (self, [])" by (simp add: tick_def)
  have b: "run_ticks self (replicate n (Inr None)) = (self, [])"
    by (rule run_ticks_unavailable)
  have c: "prev_plugged self \<noteq> None \<longrightarrow> prev_plugged (fst (run_ticks self smps)) \<noteq> None"
    using run_ticks_keeps_tracking by blast
  have d: "monitor_loop (self\<lparr>prev_plugged := None\<rparr>) (Inr None) (replicate n (Inr None)) =
       Inr (self\<lparr>prev_plugged := None\<rparr>, [])"
    by (simp add: monitor_loop_def run_ticks_unavailable)
  from a b c d show ?thesis by blast
qed

theorem unavailable_sample_changes_nothing_witness:
  "(let self = \<lparr>platform = JStr ''linux'', poll_interval = 5, token = JStr ''1:a'',
                registered_ids = {1, 2, 3}, admin_ids = {}, mode = JStr ''multi'',
                prev_plugged = Some True\<rparr> :: int bot
    in prev_plugged self = Some True
       \<and> tick self (Inr None) = (self, [])
       \<and> run_ticks self (replicate 3 (Inr None)) = (self, [])
       \<and> prev_plugged (fst (run_ticks self
            [Inr None, Inl (PyException ''PermissionError''),
             Inr (Some \<lparr>percent = None, power_plugged = None, secsleft = None, source = ''psutil''\<rparr>)]))
          = Some True)"
  using unavailable_sample_changes_nothing [of
      "\<lparr>platform = JStr ''linux'', poll_interval = 5, token = JStr ''1:a'',
        registered_ids = {1, 2, 3}, admin_ids = {}, mode = JStr ''multi'',
        prev_plugged = Some True\<rparr> :: int bot"
      3
      "[Inr None, Inl (PyException ''PermissionError''),
        Inr (Some \<lparr>percent = None, power_plugged = None, secsleft = None, source = ''psutil''\<rparr>)]"]
  by (simp add: Let_def tick_def)

text \<open>
  Claim C3.  With no remembered plugged state, a snapshot with a known plugged value
  \<open>b\<close> makes \<open>b\<close> the remembered state and calls \<^verbatim>\<open>_notify_all\<close> for nothing, whatever
  \<open>b\<close> is: in an iteration of the loop, in the first read of \<^verbatim>\<open>_monitor_loop\<close>, and after
  any run of samples that carry no known value.
\<close>

theorem first_known_sample_is_baseline:
  "tick (self\<lparr>prev_plugged := None\<rparr>) (Inr (Some (snap\<lparr>power_plugged := Some b\<rparr>))) =
     (self\<lparr>prev_plugged := Some b\<rparr>, [])
   \<and> monitor_loop self (Inr (Some (snap\<lparr>power_plugged := Some b\<rparr>))) [] =
       Inr (self\<lparr>prev_plugged := Some b\<rparr>, [])
   \<and> (known_plugged smps = [] \<longrightarrow>
        run_ticks (self\<lparr>prev_plugged := None\<rparr>) (smps @ [Inr (Some (snap\<lparr>power_plugged := Some b\<rparr>))]) =
          (self\<lparr>prev_plugged := Some b\<rparr>, []))"
proof -
  have a: "tick (self\<lparr>prev_plugged := None\<rparr>) (Inr (Some (snap\<lparr>power_plugged := Some b\<rparr>))) =
     (self\<lparr>prev_plugged := Some b\<rparr>, [])"
    by (simp add: tick_def)
  have b: "monitor_loop self (Inr (Some (snap\<lparr>power_plugged := Some b\<rparr>))) [] =
       Inr (self\<lparr>prev_plugged := Some b\<rparr>, [])"
    by (simp add: monitor_loop_def)
  have c: "run_ticks (self\<lparr>prev_plugged := None\<rparr>) (smps @ [Inr (Some (snap\<lparr>power_plugged := Some b\<rparr>))]) =
          (self\<lparr>prev_plugged := Some b\<rparr>, [])" if k: "known_plugged smps = []"
  proof -
    have "prev_plugged (self\<lparr>prev_plugged := None\<rparr>) = None" by simp
    from run_ticks_uninitialized[OF this, of smps] k
    have "run_ticks (self\<lparr>prev_plugged := None\<rparr>) smps = (self\<lparr>prev_plugged := None\<rparr>, [])"
      by (simp add: changes_def)
    then show ?thesis by (simp add: run_ticks_append a)
  qed
  from a b c show ?thesis by blast
qed

theorem first_known_sample_is_baseline_witness:
  "(let self = \<lparr>platform = JStr ''linux'', poll_interval = 5, token = JStr ''1:a'',
                registered_ids = {1, 2, 3}, admin_ids = {}, mode = JStr ''multi'',
                prev_plugged = None\<rparr> :: int bot;
        smps = [Inr None, Inl (PyException ''PermissionError''),
             Inr (Some \<lparr>percent = None, power_plugged = None, secsleft = None, source = ''psutil''\<rparr>)];
        snap = \<lparr>percent = Some 50, power_plugged = Some False, secsleft = None, source = ''psutil''\<rparr>
    in known_plugged smps = []
       \<and> tick self (Inr (Some snap)) = (self\<lparr>prev_plugged := Some False\<rparr>, [])
       \<and> run_ticks self (smps @ [Inr (Some snap)]) = (self\<lparr>prev_plugged := Some False\<rparr>, []))"
  using first_known_sample_is_baseline [where
      self = "\<lparr>platform = JStr ''linux'', poll_interval = 5, token = JStr ''1:a'',
        registered_ids = {1, 2, 3}, admin_ids = {}, mode = JStr ''multi'',
        prev_plugged = None\<rparr> :: int bot"
      and snap = "\<lparr>percent = Some 50, power_plugged = Some False, secsleft = None, source = ''psutil''\<rparr>"
      and b = False
      and smps = "[Inr None, Inl (PyException ''PermissionError''),
        Inr (Some \<lparr>percent = None, power_plugged = None, secsleft = None, source = ''psutil''\<rparr>)]"]
  by (simp add: Let_def)

subsection \<open>Notifier\<close>

lemma send_each_recipients: "map fst (fst (send_each send msg cids w)) = cids"
proof (induction cids arbitrary: w)
  case Nil
  show ?case by simp
next
  case (Cons cid cids)
  obtain r w' where s: "send w cid msg = (r, w')" by (cases "send w cid msg")
  obtain rs w'' where t: "send_each send msg cids w' = (rs, w'')"
    by (cases "send_each send msg cids w'")
  from Cons.IH[of w'] t have "map fst rs = cids" by simp
  with s t show ?case by simp
qed

lemma count_list_distinct:
  "distinct xs \<Longrightarrow> count_list xs c = (if c \<in> set xs then 1 else 0)"
  by (induction xs) auto

lemma notify_all_send_each:
  "notify_all to_list send self msg w =
     send_each send msg
       (to_list (if mode self = JStr ''multi'' then registered_ids self else admin_ids self)) w"
  by (simp add: notify_all_def Let_def)

text \<open>
  The loop applies \<open>send\<close> to the recipients from left to right, each call in the world
  the call before it left, and records every outcome.
\<close>

lemma send_each_foldl:
  "foldl (\<lambda>(rs, v) cid. case send v cid msg of (r, v') \<Rightarrow> (rs @ [(cid, r)], v')) (acc, w) cids =
     (acc @ fst (send_each send msg cids w), snd (send_each send msg cids w))"
proof (induction cids arbitrary: acc w)
  case Nil
  show ?case by simp
next
  case (Cons cid cids)
  obtain r w' where s: "send w cid msg = (r, w')" by (cases "send w cid msg")
  obtain rs w'' where t: "send_each send msg cids w' = (rs, w'')"
    by (cases "send_each send msg cids w'")
  from Cons.IH[of "acc @ [(cid, r)]" w'] s t show ?case by simp
qed

text \<open>With the recording sender the outcomes and the world are the same, and the record
  grows by one call per recipient, each with the message of the loop.\<close>

lemma send_each_logged:
  "send_each (logged send) msg cids (w, calls) =
     (fst (send_each send msg cids w),
      (snd (send_each send msg cids w), calls @ map (\<lambda>cid. (cid, msg)) cids))"
proof (induction cids arbitrary: w calls)
  case Nil
  show ?case by simp
next
  case (Cons cid cids)
  obtain r w' where s: "send w cid msg = (r, w')" by (cases "send w cid msg")
  obtain rs w'' where t: "send_each send msg cids w' = (rs, w'')"
    by (cases "send_each send msg cids w'")
  from Cons.IH[of w' "calls @ [(cid, msg)]"] s t show ?case
    by (simp add: logged_def)
qed

lemma send_each_all_fail:
  "send_each (\<lambda>v cid text. (Inl e, v)) msg cids w = (map (\<lambda>cid. (cid, Inl e)) cids, w)"
  by (induction cids) simp_all

lemma send_each_append:
  "send_each send msg (xs @ ys) w =
     (fst (send_each send msg xs w) @ fst (send_each send msg ys (snd (send_each send msg xs w))),
      snd (send_each send msg ys (snd (send_each send msg xs w))))"
proof (induction xs arbitrary: w)
  case Nil
  show ?case by simp
next
  case (Cons cid cids)
  obtain r w' where s: "send w cid msg = (r, w')" by (cases "send w cid msg")
  from Cons.IH[of w'] s show ?case by (simp split: prod.splits)
qed

text \<open>
  Claim C6.  Let the recipients be the registered ids in multi-user mode and the admin
  ids otherwise, and let \<^verbatim>\<open>list(...)\<close> enumerate that set without repetition.  Then
  \<^verbatim>\<open>_notify_all\<close> calls \<^verbatim>\<open>send_message\<close> for the recipients in the order of the list,
  whatever each call returns or raises: every recipient is attempted exactly once and
  nobody else is attempted.  The calls really made, as a sender that records them
  shows, are one per recipient, each with the message handed to \<^verbatim>\<open>_notify_all\<close>; the
  outcomes returned and the world left are those of applying \<^verbatim>\<open>send_message\<close> to the
  recipients one after the other, each in the world the call before it left.  A
  recipient whose delivery raises is followed by the attempts for all the recipients
  after it, made in the world that failed call left; when every delivery raises, every
  recipient has still been attempted.  With no recipient there is no attempt and the
  world stays as it was.  The model has no branch in which \<^verbatim>\<open>_notify_all\<close> itself raises.
\<close>

theorem notify_all_attempts_each_once:
  assumes "set (to_list (if mode self = JStr ''multi'' then registered_ids self else admin_ids self)) =
             (if mode self = JStr ''multi'' then registered_ids self else admin_ids self)"
    and "distinct (to_list (if mode self = JStr ''multi'' then registered_ids self else admin_ids self))"
  shows "map fst (fst (notify_all to_list send self msg w)) =
           to_list (if mode self = JStr ''multi'' then registered_ids self else admin_ids self)
     \<and> count_list (map fst (fst (notify_all to_list send self msg w))) c =
           (if c \<in> (if mode self = JStr ''multi'' then registered_ids self else admin_ids self)
            then 1 else 0)
     \<and> ((if mode self = JStr ''multi'' then registered_ids self else admin_ids self) = {} \<longrightarrow>
           notify_all to_list send self msg w = ([], w))
     \<and> notify_all to_list send self msg w =
           foldl (\<lambda>(rs, v) cid. case send v cid msg of (r, v') \<Rightarrow> (rs @ [(cid, r)], v'))
             ([], w)
             (to_list (if mode self = JStr ''multi'' then registered_ids self else admin_ids self))
     \<and> notify_all to_list (logged send) self msg (w, []) =
           (fst (notify_all to_list send self msg w),
            (snd (notify_all to_list send self msg w),
             map (\<lambda>cid. (cid, msg))
               (to_list (if mode self = JStr ''multi'' then registered_ids self
                         else admin_ids self))))
     \<and> count_list (snd (snd (notify_all to_list (logged send) self msg (w, [])))) (c, msg) =
           (if c \<in> (if mode self = JStr ''multi'' then registered_ids self else admin_ids self)
            then 1 else 0)
     \<and> (to_list (if mode self = JStr ''multi'' then registered_ids self else admin_ids self) =
           before @ failing # rest \<and>
         fst (send (snd (send_each send msg before w)) failing msg) = Inl e \<longrightarrow>
           notify_all to_list send self msg w =
             (fst (send_each send msg before w) @ (failing, Inl e) #
                fst (send_each send msg rest
                  (snd (send (snd (send_each send msg before w)) failing msg))),
              snd (send_each send msg rest
                  (snd (send (snd (send_each send msg before w)) failing msg))))
           \<and> map fst (fst (send_each send msg rest
                  (snd (send (snd (send_each send msg before w)) failing msg)))) = rest)
     \<and> notify_all to_list (\<lambda>v cid text. (Inl e, v)) self msg w =
           (map (\<lambda>cid. (cid, Inl e))
              (to_list (if mode self = JStr ''multi'' then registered_ids self
                        else admin_ids self)), w)"
proof -
  let ?S = "if mode self = JStr ''multi'' then registered_ids self else admin_ids self"
  have a: "map fst (fst (notify_all to_list send self msg w)) = to_list ?S"
    by (simp add: notify_all_send_each send_each_recipients)
  have b: "count_list (map fst (fst (notify_all to_list send self msg w))) c =
           (if c \<in> ?S then 1 else 0)"
    unfolding a using count_list_distinct[OF assms(2), of c] assms(1) by simp
  have c: "notify_all to_list send self msg w = ([], w)" if "?S = {}"
  proof -
    from that assms(1) have "to_list ?S = []" by simp
    then show ?thesis by (simp add: notify_all_send_each)
  qed
  have d: "notify_all to_list send self msg w =
           foldl (\<lambda>(rs, v) cid. case send v cid msg of (r, v') \<Rightarrow> (rs @ [(cid, r)], v'))
             ([], w) (to_list ?S)"
    by (simp add: notify_all_send_each send_each_foldl)
  have f: "notify_all to_list (logged send) self msg (w, []) =
           (fst (notify_all to_list send self msg w),
            (snd (notify_all to_list send self msg w), map (\<lambda>cid. (cid, msg)) (to_list ?S)))"
    by (simp add: notify_all_send_each send_each_logged)
  have inj: "inj (\<lambda>cid. (cid, msg))" by (simp add: inj_on_def)
  have g: "count_list (snd (snd (notify_all to_list (logged send) self msg (w, [])))) (c, msg) =
           (if c \<in> ?S then 1 else 0)"
  proof -
    have dist: "distinct (map (\<lambda>cid. (cid, msg)) (to_list ?S))"
      using assms(2) by (simp add: distinct_map inj_on_def)
    have mem: "((c, msg) \<in> set (map (\<lambda>cid. (cid, msg)) (to_list ?S))) = (c \<in> ?S)"
      using assms(1) by auto
    from count_list_distinct[OF dist, of "(c, msg)"] mem show ?thesis
      by (simp add: f)
  qed
  have h: "notify_all to_list send self msg w =
             (fst (send_each send msg before w) @ (failing, Inl e) #
                fst (send_each send msg rest
                  (snd (send (snd (send_each send msg before w)) failing msg))),
              snd (send_each send msg rest
                  (snd (send (snd (send_each send msg before w)) failing msg))))
           \<and> map fst (fst (send_each send msg rest
                  (snd (send (snd (send_each send msg before w)) failing msg)))) = rest"
    if "to_list ?S = before @ failing # rest"
      and "fst (send (snd (send_each send msg before w)) failing msg) = Inl e"
  proof -
    obtain r v where s: "send (snd (send_each send msg before w)) failing msg = (r, v)"
      by (cases "send (snd (send_each send msg before w)) failing msg")
    with that(2) have r: "r = Inl e" by simp
    have "notify_all to_list send self msg w = send_each send msg (before @ failing # rest) w"
      by (simp add: notify_all_send_each that(1))
    also have "\<dots> = (fst (send_each send msg before w) @ (failing, Inl e) #
                fst (send_each send msg rest v), snd (send_each send msg rest v))"
      by (simp add: send_each_append s r split: prod.splits)
    finally show ?thesis by (simp add: s send_each_recipients)
  qed
  have i: "notify_all to_list (\<lambda>v cid text. (Inl e, v)) self msg w =
           (map (\<lambda>cid. (cid, Inl e)) (to_list ?S), w)"
    by (simp add: notify_all_send_each send_each_all_fail)
  from a b c d f g h i show ?thesis by blast
qed

theorem notify_all_attempts_each_once_witness:
  "(let to_list = (\<lambda>S. filter (\<lambda>x. x \<in> S) [1, 2, 3, 7]);
        send = (\<lambda>w cid text. (if cid = 2 then Inl (PyException ''Forbidden'') else Inr (), Suc w));
        self = \<lparr>platform = JStr ''linux'', poll_interval = 5, token = JStr ''1:a'',
                registered_ids = {1, 2, 3}, admin_ids = {}, mode = JStr ''multi'',
                prev_plugged = Some True\<rparr> :: int bot
    in set (to_list (registered_ids self)) = registered_ids self
       \<and> distinct (to_list (registered_ids self))
       \<and> notify_all to_list send self MSG_OFF (0::nat) =
            ([(1, Inr ()), (2, Inl (PyException ''Forbidden'')), (3, Inr ())], 3)
       \<and> notify_all to_list (logged send) self MSG_OFF (0::nat, []) =
            ([(1, Inr ()), (2, Inl (PyException ''Forbidden'')), (3, Inr ())],
             (3, [(1, MSG_OFF), (2, MSG_OFF), (3, MSG_OFF)]))
       \<and> to_list (registered_ids self) = [1] @ 2 # [3]
       \<and> fst (send (snd (send_each send MSG_OFF [1] (0::nat))) 2 MSG_OFF) =
            Inl (PyException ''Forbidden'')
       \<and> fst (send_each send MSG_OFF [3] (snd (send (snd (send_each send MSG_OFF [1] 0)) 2 MSG_OFF))) =
            [(3, Inr ())]
       \<and> count_list (map fst (fst (notify_all to_list send self MSG_OFF (0::nat)))) 2 = 1
       \<and> admin_ids self = {}
       \<and> notify_all to_list send (self\<lparr>mode := JStr ''admin''\<rparr>) MSG_OFF (0::nat) = ([], 0))"
  using notify_all_attempts_each_once [where
      to_list = "\<lambda>S. filter (\<lambda>x. x \<in> S) [1, 2, 3, 7]"
      and send = "\<lambda>w cid text. (if cid = 2 then Inl (PyException ''Forbidden'') else Inr (), Suc w)"
      and self = "\<lparr>platform = JStr ''linux'', poll_interval = 5, token = JStr ''1:a'',
                registered_ids = {1, 2, 3}, admin_ids = {}, mode = JStr ''multi'',
                prev_plugged = Some True\<rparr> :: int bot"
      and msg = MSG_OFF and w = "0::nat" and c = 2 and before = "[1]" and failing = 2
      and rest = "[3]" and e = "PyException ''Forbidden''"]
    notify_all_attempts_each_once [where
      to_list = "\<lambda>S. filter (\<lambda>x. x \<in> S) [1, 2, 3, 7]"
      and send = "\<lambda>w cid text. (if cid = 2 then Inl (PyException ''Forbidden'') else Inr (), Suc w)"
      and self = "\<lparr>platform = JStr ''linux'', poll_interval = 5, token = JStr ''1:a'',
                registered_ids = {1, 2, 3}, admin_ids = {}, mode = JStr ''admin'',
                prev_plugged = Some True\<rparr> :: int bot"
      and msg = MSG_OFF and w = "0::nat" and c = 2 and before = "[]" and failing = 2
      and rest = "[]" and e = "PyException ''Forbidden''"]
  by (simp add: Let_def notify_all_def logged_def)

subsection \<open>Access control\<close>

text \<open>
  Claim C7.  \<^verbatim>\<open>_is_allowed\<close> is true for every chat id when the mode is
  \<^verbatim>\<open>"multi"\<close>; when the mode is \<^verbatim>\<open>"admin"\<close> it is true exactly for the members of
  the admin set.  In particular admin-only with admins {7} allows 7 and refuses 8, and
  multi-user with admins {7} allows 8.
\<close>

theorem is_allowed_by_mode:
  "is_allowed (self\<lparr>mode := JStr ''multi''\<rparr>) cid
   \<and> is_allowed (self\<lparr>mode := JStr ''admin''\<rparr>) cid = (cid \<in> admin_ids self)
   \<and> is_allowed self cid = (mode self = JStr ''multi'' \<or> cid \<in> admin_ids self)
   \<and> is_allowed (self\<lparr>mode := JStr ''admin'', admin_ids := {7}\<rparr>) 7
   \<and> \<not> is_allowed (self\<lparr>mode := JStr ''admin'', admin_ids := {7}\<rparr>) 8
   \<and> is_allowed (self\<lparr>mode := JStr ''multi'', admin_ids := {7}\<rparr>) 8"
  by (simp add: is_allowed_def)

theorem is_allowed_by_mode_witness:
  "(let self = \<lparr>platform = JStr ''linux'', poll_interval = 5, token = JStr ''1:a'',
                registered_ids = {1, 2, 3}, admin_ids = {7, 9}, mode = JStr ''admin'',
                prev_plugged = None\<rparr> :: int bot
    in is_allowed self 9 \<and> \<not> is_allowed self 1
       \<and> is_allowed (self\<lparr>mode := JStr ''multi''\<rparr>) 1)"
  using is_allowed_by_mode [where cid = 1 and self =
      "\<lparr>platform = JStr ''linux'', poll_interval = 5, token = JStr ''1:a'',
        registered_ids = {1, 2, 3}, admin_ids = {7, 9}, mode = JStr ''admin'',
        prev_plugged = None\<rparr> :: int bot"]
  by (simp add: Let_def is_allowed_def)

subsection \<open>Texts\<close>

text \<open>
  Claim C10.  Without \<^verbatim>\<open>psutil\<close>, \<^verbatim>\<open>format_time_left\<close> answers \<^verbatim>\<open>"unlimited"\<close>
  for every integer, since the first guard is then the true constant \<^verbatim>\<open>-1\<close>; the
  answer for \<^verbatim>\<open>None\<close> is \<^verbatim>\<open>"unknown"\<close>.  Only with the library present is the
  argument compared with its two sentinels.
\<close>

theorem format_time_left_without_psutil:
  "format_time_left None (Some n) = ''unlimited''
   \<and> format_time_left psutil None = ''unknown''
   \<and> format_time_left (Some ps) (Some n) =
       (if n = POWER_TIME_UNLIMITED ps then ''unlimited''
        else if n = POWER_TIME_UNKNOWN ps then ''unknown''
        else str_int (n div 3600) @ ''h '' @ str_int ((n mod 3600) div 60) @ ''m'')"
  by (simp add: format_time_left_def int_truthy_def)

theorem format_time_left_without_psutil_witness:
  "format_time_left (None :: int psutil_mod option) (Some 5400) = ''unlimited''
   \<and> format_time_left (None :: int psutil_mod option) (Some (- 1)) = ''unlimited''
   \<and> format_time_left
        (Some \<lparr>sensors_battery = Inr None, POWER_TIME_UNLIMITED = - 2, POWER_TIME_UNKNOWN = - 1\<rparr>
           :: int psutil_mod option) (Some 5400) = ''1h 30m''"
  using format_time_left_without_psutil [where n = 5400 and psutil = "None :: int psutil_mod option"
      and ps = "\<lparr>sensors_battery = Inr None, POWER_TIME_UNLIMITED = - 2, POWER_TIME_UNKNOWN = - 1\<rparr>
           :: int psutil_mod"]
    format_time_left_without_psutil [where n = "- 1" and psutil = "None :: int psutil_mod option"
      and ps = "\<lparr>sensors_battery = Inr None, POWER_TIME_UNLIMITED = - 2, POWER_TIME_UNKNOWN = - 1\<rparr>
           :: int psutil_mod"]
  by (simp add: format_time_left_def int_truthy_def str_int_def str_nat.simps)

subsection \<open>The status text\<close>

text \<open>
  Claim C8 as the specification states it does not hold: for an absent snapshot
  \<^verbatim>\<open>snapshot_text\<close> does not answer \<^verbatim>\<open>"unavailable"\<close>.
\<close>

theorem snapshot_text_absent_counterexample:
  "snapshot_text
     (\<lparr>float_of_str = (\<lambda>s. None), float_of_int = Some, float_nonzero = (\<lambda>x. x \<noteq> 0),
       format_0f = str_int, int_of_float = Some, int_of_str = (\<lambda>s. None),
       json_loads = (\<lambda>s. None)\<rparr> :: int runtime)
     None \<noteq> ''unavailable''"
  by (simp add: snapshot_text_def)

text \<open>
  Claim C8, amended.  For an absent snapshot the text is
  \<^verbatim>\<open>"Battery information not available."\<close>.  Otherwise it is the status token, then
  \<^verbatim>\<open>" - Battery: "\<close>, then the percent part.  The token is \<^verbatim>\<open>"Power ON"\<close> for plugged
  true, \<^verbatim>\<open>"Power OFF"\<close> for plugged false and \<^verbatim>\<open>"Unknown"\<close> for an unknown plugged
  value; the percent part is the percent formatted with no decimals and followed by
  \<^verbatim>\<open>%\<close>, or \<^verbatim>\<open>"n/a"\<close> alone when the percent is absent.
\<close>

theorem snapshot_text_cases:
  "snapshot_text rt None = ''Battery information not available.''
   \<and> snapshot_text rt (Some s) =
       (case power_plugged s of
          Some True \<Rightarrow> ''Power ON''
        | Some False \<Rightarrow> ''Power OFF''
        | None \<Rightarrow> ''Unknown'')
       @ '' - Battery: ''
       @ (case percent s of Some pct \<Rightarrow> format_0f rt pct @ ''%'' | None \<Rightarrow> ''n/a'')"
  by (simp add: snapshot_text_def Let_def split: option.splits bool.splits)

theorem snapshot_text_cases_witness:
  "(let rt = \<lparr>float_of_str = (\<lambda>s. None), float_of_int = Some, float_nonzero = (\<lambda>x. x \<noteq> 0),
              format_0f = str_int, int_of_float = Some, int_of_str = (\<lambda>s. None),
              json_loads = (\<lambda>s. None)\<rparr> :: int runtime
    in snapshot_text rt
         (Some \<lparr>percent = Some 95, power_plugged = Some True, secsleft = None, source = ''psutil''\<rparr>)
         = ''Power ON - Battery: 95%''
       \<and> snapshot_text rt
         (Some \<lparr>percent = None, power_plugged = Some False, secsleft = None, source = ''psutil''\<rparr>)
         = ''Power OFF - Battery: n/a''
       \<and> snapshot_text rt
         (Some \<lparr>percent = Some 7, power_plugged = None, secsleft = None, source = ''psutil''\<rparr>)
         = ''Unknown - Battery: 7%'')"
  using snapshot_text_cases [where rt = "\<lparr>float_of_str = (\<lambda>s. None), float_of_int = Some, float_nonzero = (\<lambda>x. x \<noteq> 0),
              format_0f = str_int, int_of_float = Some, int_of_str = (\<lambda>s. None),
              json_loads = (\<lambda>s. None)\<rparr> :: int runtime"
     and s = "\<lparr>percent = Some 95, power_plugged = Some True, secsleft = None, source = ''psutil''\<rparr>"]
    snapshot_text_cases [where rt = "\<lparr>float_of_str = (\<lambda>s. None), float_of_int = Some, float_nonzero = (\<lambda>x. x \<noteq> 0),
              format_0f = str_int, int_of_float = Some, int_of_str = (\<lambda>s. None),
              json_loads = (\<lambda>s. None)\<rparr> :: int runtime"
     and s = "\<lparr>percent = None, power_plugged = Some False, secsleft = None, source = ''psutil''\<rparr>"]
    snapshot_text_cases [where rt = "\<lparr>float_of_str = (\<lambda>s. None), float_of_int = Some, float_nonzero = (\<lambda>x. x \<noteq> 0),
              format_0f = str_int, int_of_float = Some, int_of_str = (\<lambda>s. None),
              json_loads = (\<lambda>s. None)\<rparr> :: int runtime"
     and s = "\<lparr>percent = Some 7, power_plugged = None, secsleft = None, source = ''psutil''\<rparr>"]
  by (simp add: Let_def str_int_def str_nat.simps)

subsection \<open>Probe\<close>

lemma read_battery_psutil_plugged:
  "read_battery_psutil env = Some snap \<Longrightarrow> \<exists>b. power_plugged snap = Some b"
  by (auto simp: read_battery_psutil_def split: option.splits sum.splits)

lemma scan_candidates_plugged:
  "scan_candidates rt cands = Some snap \<Longrightarrow>
   \<exists>cand status. cand \<in> set cands \<and> e_status cand = Content status
      \<and> power_plugged snap =
          Some (lower (strip status) \<in> set [''charging'', ''full'', ''pending_charge''])"
proof (induction cands)
  case Nil
  then show ?case by simp
next
  case (Cons cand cands)
  show ?case
  proof (cases "scan_candidates rt cands = Some snap")
    case True
    from Cons.IH[OF this] show ?thesis by auto
  next
    case False
    with Cons.prems obtain status where "e_status cand = Content status"
      and "power_plugged snap =
          Some (lower (strip status) \<in> set [''charging'', ''full'', ''pending_charge''])"
      by (auto simp: read_file_def split: if_splits sum.splits option.splits file_state.splits)
    then show ?thesis by auto
  qed
qed

lemma read_battery_linux_sysfs_plugged:
  "read_battery_linux_sysfs rt env = Inr (Some snap) \<Longrightarrow> \<exists>b. power_plugged snap = Some b"
  by (auto simp: read_battery_linux_sysfs_def split: if_splits sum.splits
      dest!: scan_candidates_plugged)

lemma read_battery_termux_plugged:
  "read_battery_termux rt env = Some snap \<Longrightarrow>
   \<exists>rc out d. env_termux env = Inr (rc, out) \<and> json_loads rt out = Some (JObj d)
      \<and> power_plugged snap = Some (truthy rt (dict_get d ''plugged''))"
  by (auto simp: read_battery_termux_def
      split: sum.splits prod.splits if_splits option.splits json.splits)

text \<open>
  Fallback order and platform gating: after \<^verbatim>\<open>psutil\<close>, only \<^verbatim>\<open>"linux"\<close> reads sysfs,
  only \<^verbatim>\<open>"android"\<close> runs the termux command and then reads sysfs, and every other
  platform stops after \<^verbatim>\<open>psutil\<close>.  The probe returns whenever the sysfs directory is
  absent or can be listed.
\<close>

lemma get_battery_snapshot_chain:
  "get_battery_snapshot rt env p =
     (case read_battery_psutil env of
        Some st \<Rightarrow> Inr (Some st)
      | None \<Rightarrow>
          if p = ''linux'' then read_battery_linux_sysfs rt env
          else if p = ''android'' then
            (case read_battery_termux rt env of
               Some st \<Rightarrow> Inr (Some st)
             | None \<Rightarrow> read_battery_linux_sysfs rt env)
          else Inr None)"
  by (auto simp: get_battery_snapshot_def split: option.splits sum.splits)

lemma get_battery_snapshot_returns:
  "\<not> env_sysfs_isdir env \<or> env_sysfs_listdir env = Inr entries \<Longrightarrow>
   \<exists>r. get_battery_snapshot rt env p = Inr r"
  by (auto simp: get_battery_snapshot_chain read_battery_linux_sysfs_def split: option.splits)

text \<open>
  Claim C4.  The claim says that every internal adapter error is caught inside the
  chain and that the probe returns \<^verbatim>\<open>None\<close> rather than raising.  On a host without
  \<^verbatim>\<open>psutil\<close> where \<^verbatim>\<open>/sys/class/power_supply\<close> is a directory that cannot be listed,
  the exception of \<^verbatim>\<open>os.listdir\<close> leaves \<^verbatim>\<open>read_battery_linux_sysfs\<close> and
  \<^verbatim>\<open>get_battery_snapshot\<close>, on \<^verbatim>\<open>"linux"\<close> and (after the termux command failed) on
  \<^verbatim>\<open>"android"\<close>.
\<close>

theorem probe_listdir_error_escapes:
  "get_battery_snapshot rt
     \<lparr>env_psutil = None, env_sysfs_isdir = True,
      env_sysfs_listdir = Inl (PyException ''PermissionError''),
      env_termux = Inl (PyException ''FileNotFoundError'')\<rparr>
     ''linux'' = Inl (PyException ''PermissionError'')
   \<and> get_battery_snapshot rt
     \<lparr>env_psutil = None, env_sysfs_isdir = True,
      env_sysfs_listdir = Inl (PyException ''PermissionError''),
      env_termux = Inl (PyException ''FileNotFoundError'')\<rparr>
     ''android'' = Inl (PyException ''PermissionError'')"
  by (simp add: get_battery_snapshot_def read_battery_psutil_def read_battery_linux_sysfs_def
      read_battery_termux_def)

text \<open>
  Claim C9.  Every snapshot \<^verbatim>\<open>get_battery_snapshot\<close> returns has a plugged value that is
  a boolean, never \<^verbatim>\<open>None\<close>.  The psutil adapter gives \<^verbatim>\<open>bool(b.power_plugged)\<close>, which
  is false for \<^verbatim>\<open>None\<close>; the sysfs adapter gives the membership of the stripped,
  lower-cased status text in charging, full, pending_charge; the termux adapter gives
  false when the JSON object has no \<^verbatim>\<open>"plugged"\<close> key.
\<close>

theorem probe_snapshot_plugged_known:
  "(get_battery_snapshot rt env p = Inr (Some snap) \<longrightarrow> (\<exists>b. power_plugged snap = Some b))
   \<and> read_battery_psutil (env\<lparr>env_psutil := Some (ps\<lparr>sensors_battery := Inr (Some b)\<rparr>)\<rparr>) =
       Some \<lparr>percent = b_percent b, power_plugged = Some (b_power_plugged b = Some True),
             secsleft = b_secsleft b, source = ''psutil''\<rparr>
   \<and> (scan_candidates rt cands = Some snap \<longrightarrow>
        (\<exists>cand status. cand \<in> set cands \<and> e_status cand = Content status
           \<and> power_plugged snap =
               Some (lower (strip status) \<in> set [''charging'', ''full'', ''pending_charge''])))
   \<and> (json_loads rt out = Some (JObj d) \<and> map_of d ''plugged'' = None
        \<and> read_battery_termux rt (env\<lparr>env_termux := Inr (rc, out)\<rparr>) = Some snap \<longrightarrow>
        power_plugged snap = Some False)"
proof -
  have a: "\<exists>b. power_plugged snap = Some b" if "get_battery_snapshot rt env p = Inr (Some snap)"
    using that
    by (auto simp: get_battery_snapshot_chain split: option.splits if_splits
        dest: read_battery_psutil_plugged read_battery_linux_sysfs_plugged
          read_battery_termux_plugged)
  have b: "read_battery_psutil (env\<lparr>env_psutil := Some (ps\<lparr>sensors_battery := Inr (Some b)\<rparr>)\<rparr>) =
       Some \<lparr>percent = b_percent b, power_plugged = Some (b_power_plugged b = Some True),
             secsleft = b_secsleft b, source = ''psutil''\<rparr>"
    by (auto simp: read_battery_psutil_def split: option.splits)
  have c: "\<exists>cand status. cand \<in> set cands \<and> e_status cand = Content status
           \<and> power_plugged snap =
               Some (lower (strip status) \<in> set [''charging'', ''full'', ''pending_charge''])"
    if "scan_candidates rt cands = Some snap"
    using that by (rule scan_candidates_plugged)
  have d: "power_plugged snap = Some False"
    if "json_loads rt out = Some (JObj d)" "map_of d ''plugged'' = None"
      "read_battery_termux rt (env\<lparr>env_termux := Inr (rc, out)\<rparr>) = Some snap"
    using read_battery_termux_plugged[OF that(3)] that(1,2) by (auto simp: dict_get_def)
  from a b c d show ?thesis by blast
qed


theorem probe_snapshot_plugged_known_witness:
  "(let rt = \<lparr>float_of_str = (\<lambda>s. if s = ''87'' then Some 87 else None), float_of_int = Some,
           float_nonzero = (\<lambda>x. x \<noteq> 0), format_0f = str_int, int_of_float = Some,
           int_of_str = (\<lambda>s. None),
           json_loads = (\<lambda>s. if s = ''{}'' then Some (JObj []) else None)\<rparr> :: int runtime;
        env = \<lparr>env_psutil = None, env_sysfs_isdir = True,
            env_sysfs_listdir = Inr
              [\<lparr>e_name = ''AC'', e_isdir = True, e_status = Missing, e_capacity = Missing\<rparr>,
               \<lparr>e_name = ''BAT0'', e_isdir = True,
                e_status = Content (''Charging'' @ [CHR 0x0A]),
                e_capacity = Content (''87'' @ [CHR 0x0A])\<rparr>],
            env_termux = Inr (0, ''{}'')\<rparr> :: int probe_env
    in get_battery_snapshot rt env ''linux'' =
         Inr (Some \<lparr>percent = Some 87, power_plugged = Some True, secsleft = None, source = ''sysfs:BAT0''\<rparr>)
       \<and> get_battery_snapshot rt env ''android'' =
         Inr (Some \<lparr>percent = None, power_plugged = Some False, secsleft = None,
               source = ''termux-battery-status''\<rparr>)
       \<and> read_battery_psutil
           (env\<lparr>env_psutil := Some \<lparr>sensors_battery = Inr (Some (\<lparr>b_percent = Some 50, b_secsleft = None, b_power_plugged = None\<rparr> :: int sbattery)),
                                     POWER_TIME_UNLIMITED = - 2, POWER_TIME_UNKNOWN = - 1\<rparr>\<rparr>) =
         Some \<lparr>percent = Some 50, power_plugged = Some False, secsleft = None,
               source = ''psutil''\<rparr>)"
  using probe_snapshot_plugged_known [where rt = "\<lparr>float_of_str = (\<lambda>s. if s = ''87'' then Some 87 else None), float_of_int = Some,
           float_nonzero = (\<lambda>x. x \<noteq> 0), format_0f = str_int, int_of_float = Some,
           int_of_str = (\<lambda>s. None),
           json_loads = (\<lambda>s. if s = ''{}'' then Some (JObj []) else None)\<rparr> :: int runtime"
      and env = "\<lparr>env_psutil = None, env_sysfs_isdir = True,
            env_sysfs_listdir = Inr
              [\<lparr>e_name = ''AC'', e_isdir = True, e_status = Missing, e_capacity = Missing\<rparr>,
               \<lparr>e_name = ''BAT0'', e_isdir = True,
                e_status = Content (''Charging'' @ [CHR 0x0A]),
                e_capacity = Content (''87'' @ [CHR 0x0A])\<rparr>],
            env_termux = Inr (0, ''{}'')\<rparr> :: int probe_env"
      and p = "''linux''"
      and snap = "\<lparr>percent = Some 87, power_plugged = Some True, secsleft = None, source = ''sysfs:BAT0''\<rparr>"
      and ps = "\<lparr>sensors_battery = Inr None, POWER_TIME_UNLIMITED = - 2, POWER_TIME_UNKNOWN = - 1\<rparr> :: int psutil_mod"
      and b = "\<lparr>b_percent = Some 50, b_secsleft = None, b_power_plugged = None\<rparr> :: int sbattery"
      and cands = "[\<lparr>e_name = ''BAT0'', e_isdir = True,
                e_status = Content (''Charging'' @ [CHR 0x0A]),
                e_capacity = Content (''87'' @ [CHR 0x0A])\<rparr>]"
      and out = "''{}''" and d = "[]" and rc = 0]
    probe_snapshot_plugged_known [where rt = "\<lparr>float_of_str = (\<lambda>s. if s = ''87'' then Some 87 else None), float_of_int = Some,
           float_nonzero = (\<lambda>x. x \<noteq> 0), format_0f = str_int, int_of_float = Some,
           int_of_str = (\<lambda>s. None),
           json_loads = (\<lambda>s. if s = ''{}'' then Some (JObj []) else None)\<rparr> :: int runtime"
      and env = "\<lparr>env_psutil = None, env_sysfs_isdir = True,
            env_sysfs_listdir = Inr
              [\<lparr>e_name = ''AC'', e_isdir = True, e_status = Missing, e_capacity = Missing\<rparr>,
               \<lparr>e_name = ''BAT0'', e_isdir = True,
                e_status = Content (''Charging'' @ [CHR 0x0A]),
                e_capacity = Content (''87'' @ [CHR 0x0A])\<rparr>],
            env_termux = Inr (0, ''{}'')\<rparr> :: int probe_env"
      and p = "''android''"
      and snap = "\<lparr>percent = None, power_plugged = Some False, secsleft = None,
               source = ''termux-battery-status''\<rparr>"
      and ps = "\<lparr>sensors_battery = Inr None, POWER_TIME_UNLIMITED = - 2, POWER_TIME_UNKNOWN = - 1\<rparr> :: int psutil_mod"
      and b = "\<lparr>b_percent = Some 50, b_secsleft = None, b_power_plugged = None\<rparr> :: int sbattery"
      and cands = "[]"
      and out = "''{}''" and d = "[]" and rc = 0]
  by (simp add: Let_def get_battery_snapshot_def read_battery_psutil_def
      read_battery_linux_sysfs_def read_battery_termux_def path_exists_def read_file_def
      strip_def lower_def lower_char_def is_space_def dict_get_def)

subsection \<open>Registry\<close>

lemma map_of_dict_set: "map_of (dict_set k v d) = (map_of d)(k \<mapsto> v)"
  by (induction d) (auto simp: fun_eq_iff)

lemma dict_set_not_Nil: "dict_set k v d \<noteq> []"
  by (cases d) (auto split: if_splits)

lemma strict_ints_JInt: "strict_ints rt (map JInt ns) = Some (filter (\<lambda>n. n \<noteq> 0) ns)"
  by (induction ns) auto

lemma lenient_ints_JInt: "lenient_ints rt (map JInt ns) = ns"
  by (induction ns) auto

lemma map_of_with_platform:
  "k \<noteq> ''platform'' \<Longrightarrow> map_of (with_platform p cfg) k = map_of cfg k"
  by (simp add: with_platform_def map_of_dict_set)

lemma main_bot_of_state:
  assumes "map_of cfg ''bot_token'' = Some tok" "truthy rt tok"
    and "map_of cfg ''poll_interval'' = Some (JInt n)"
    and "map_of cfg ''mode'' = Some m"
    and "map_of cfg ''admin_ids'' = Some (JArr (map JInt ads))"
    and "map_of cfg ''registered_ids'' = Some (JArr (map JInt regs))"
  shows "\<exists>pm. main_bot rt p (JObj cfg) = Inr pm \<and> registered_ids pm = set regs
           \<and> admin_ids pm = set ads \<and> mode pm = m \<and> token pm = tok \<and> poll_interval pm = n"
  using assms
  by (auto simp: main_bot_def init_bot_def Let_def dict_get_def dict_get_default_def
      map_of_with_platform strict_ints_JInt lenient_ints_JInt)

lemma persist_registered_ok:
  assumes "disk DATA_FILE = Absent \<or> disk DATA_FILE = Corrupt \<or> (\<exists>cfg. disk DATA_FILE = Holds (JObj cfg))"
  shows "\<exists>cfg. persist_registered to_list rt IoOk self disk =
           (disk(TEMP_DATA_FILE := Absent))(DATA_FILE := Holds (JObj cfg))
         \<and> cfg \<noteq> []
         \<and> map_of cfg ''bot_token'' = Some (token self)
         \<and> map_of cfg ''platform'' = Some (platform self)
         \<and> map_of cfg ''poll_interval'' = Some (JInt (poll_interval self))
         \<and> map_of cfg ''mode'' = Some (mode self)
         \<and> map_of cfg ''admin_ids'' = Some (JArr (map JInt (to_list (admin_ids self))))
         \<and> map_of cfg ''registered_ids'' = Some (JArr (map JInt (to_list (registered_ids self))))"
proof -
  have "\<exists>cfg0. (case safe_read_json disk DATA_FILE of
              None \<Rightarrow> JObj []
            | Some j \<Rightarrow> if truthy rt j then j else JObj []) = JObj cfg0"
    using assms by (auto simp: safe_read_json_def)
  then obtain cfg0 where r: "(case safe_read_json disk DATA_FILE of
              None \<Rightarrow> JObj []
            | Some j \<Rightarrow> if truthy rt j then j else JObj []) = JObj cfg0"
    by blast
  let ?cfg = "dict_set ''bot_token'' (token self)
              (dict_set ''platform'' (platform self)
              (dict_set ''poll_interval'' (JInt (poll_interval self))
              (dict_set ''mode'' (mode self)
              (dict_set ''admin_ids'' (JArr (map JInt (to_list (admin_ids self))))
              (dict_set ''registered_ids'' (JArr (map JInt (to_list (registered_ids self))))
              (setdefault ''registered_ids'' (JArr []) cfg0))))))"
  have w: "persist_registered to_list rt IoOk self disk =
           (disk(TEMP_DATA_FILE := Absent))(DATA_FILE := Holds (JObj ?cfg))"
    unfolding persist_registered_def r by (simp add: safe_write_json_def)
  have k: "?cfg \<noteq> []
         \<and> map_of ?cfg ''bot_token'' = Some (token self)
         \<and> map_of ?cfg ''platform'' = Some (platform self)
         \<and> map_of ?cfg ''poll_interval'' = Some (JInt (poll_interval self))
         \<and> map_of ?cfg ''mode'' = Some (mode self)
         \<and> map_of ?cfg ''admin_ids'' = Some (JArr (map JInt (to_list (admin_ids self))))
         \<and> map_of ?cfg ''registered_ids'' = Some (JArr (map JInt (to_list (registered_ids self))))"
    by (simp add: map_of_dict_set dict_set_not_Nil)
  from w k show ?thesis by blast
qed

lemma persist_registered_reload:
  assumes "set (to_list (registered_ids self)) = registered_ids self"
    and "set (to_list (admin_ids self)) = admin_ids self"
    and "truthy rt (token self)"
    and "disk DATA_FILE = Absent \<or> disk DATA_FILE = Corrupt \<or> (\<exists>cfg. disk DATA_FILE = Holds (JObj cfg))"
  shows "reload_agrees rt p (persist_registered to_list rt IoOk self disk) self"
proof -
  from persist_registered_ok[where disk = disk and to_list = to_list and rt = rt and self = self,
      OF assms(4)] obtain cfg where
    w: "persist_registered to_list rt IoOk self disk =
           (disk(TEMP_DATA_FILE := Absent))(DATA_FILE := Holds (JObj cfg))"
    and ne: "cfg \<noteq> []"
    and k: "map_of cfg ''bot_token'' = Some (token self)"
      "map_of cfg ''poll_interval'' = Some (JInt (poll_interval self))"
      "map_of cfg ''mode'' = Some (mode self)"
      "map_of cfg ''admin_ids'' = Some (JArr (map JInt (to_list (admin_ids self))))"
      "map_of cfg ''registered_ids'' = Some (JArr (map JInt (to_list (registered_ids self))))"
    by blast
  from main_bot_of_state[OF k(1) assms(3) k(2) k(3) k(4) k(5), of p] obtain pm where
    "main_bot rt p (JObj cfg) = Inr pm" "registered_ids pm = set (to_list (registered_ids self))"
    "admin_ids pm = set (to_list (admin_ids self))" "mode pm = mode self"
    by blast
  with w ne assms(1,2) show ?thesis
    by (simp add: reload_agrees_def safe_read_json_def)
qed

lemma persist_registered_atomic:
  "persist_registered to_list rt io self disk DATA_FILE = disk DATA_FILE
   \<or> (io = IoOk \<and> (\<exists>cfg. persist_registered to_list rt io self disk DATA_FILE = Holds (JObj cfg)))"
  by (cases io)
    (auto simp: persist_registered_def safe_write_json_def DATA_FILE_def TEMP_DATA_FILE_def
      split: json.splits option.splits)


text \<open>
  Claim C5.  Let \<^verbatim>\<open>list(...)\<close> enumerate every finite set, let the token be true in a
  condition (the constructor refuses any other), and let \<^verbatim>\<open>data.json\<close> be absent,
  unreadable, or hold a JSON object.  When the temporary write and the rename succeed,
  \<^verbatim>\<open>_persist_registered\<close> leaves the full state in \<^verbatim>\<open>data.json\<close> and no temporary
  file, and the object \<^verbatim>\<open>main\<close> builds from that file has the subscriber set, the admin
  set and the mode of the object in memory.  The same holds after a registration that
  adds an id, after an unregistration that removes one, and after a reconfiguration
  that changes mode and admins.  Whatever step of the write fails, \<^verbatim>\<open>data.json\<close> keeps
  its old content: it changes only by the rename, to the complete new state.
\<close>

theorem persistence_round_trips:
  assumes "\<forall>S. finite S \<longrightarrow> set (to_list S) = S"
    and "finite (registered_ids self)" and "finite (admin_ids self)"
    and "truthy rt (token self)"
    and "disk DATA_FILE = Absent \<or> disk DATA_FILE = Corrupt
         \<or> (\<exists>cfg. disk DATA_FILE = Holds (JObj cfg))"
  shows "reload_agrees rt p (persist_registered to_list rt IoOk self disk) self
    \<and> persist_registered to_list rt IoOk self disk TEMP_DATA_FILE = Absent
    \<and> (persist_registered to_list rt io self disk DATA_FILE = disk DATA_FILE
         \<or> (io = IoOk
             \<and> (\<exists>cfg. persist_registered to_list rt io self disk DATA_FILE = Holds (JObj cfg))))
    \<and> (cid \<notin> registered_ids self \<and> is_allowed self cid \<longrightarrow>
          registered_ids (fst (register_callback to_list rt IoOk self cid disk)) =
            insert cid (registered_ids self)
          \<and> reload_agrees rt p (snd (register_callback to_list rt IoOk self cid disk))
                (fst (register_callback to_list rt IoOk self cid disk)))
    \<and> (cid \<in> registered_ids self \<longrightarrow>
          registered_ids (fst (handle_unregister to_list rt IoOk self cid disk)) =
            registered_ids self - {cid}
          \<and> reload_agrees rt p (snd (handle_unregister to_list rt IoOk self cid disk))
                (fst (handle_unregister to_list rt IoOk self cid disk)))
    \<and> (truthy rt (new_token new_cfg) \<longrightarrow>
          mode (fst (reconfigure_console to_list rt io_setup IoOk self new_cfg disk)) =
            new_mode new_cfg
          \<and> admin_ids (fst (reconfigure_console to_list rt io_setup IoOk self new_cfg disk)) =
            set (new_admin_ids new_cfg)
          \<and> reload_agrees rt p (snd (reconfigure_console to_list rt io_setup IoOk self new_cfg disk))
                (fst (reconfigure_console to_list rt io_setup IoOk self new_cfg disk)))"
proof -
  have enum: "set (to_list S) = S" if "finite S" for S
    using assms(1) that by blast
  have a: "reload_agrees rt p (persist_registered to_list rt IoOk self disk) self"
    by (rule persist_registered_reload) (simp_all add: enum assms(2-5))
  have b: "persist_registered to_list rt IoOk self disk TEMP_DATA_FILE = Absent"
    using persist_registered_ok[where disk = disk and to_list = to_list and rt = rt and self = self,
        OF assms(5)]
    by (auto simp: DATA_FILE_def TEMP_DATA_FILE_def)
  have c: "persist_registered to_list rt io self disk DATA_FILE = disk DATA_FILE
         \<or> (io = IoOk
             \<and> (\<exists>cfg. persist_registered to_list rt io self disk DATA_FILE = Holds (JObj cfg)))"
    by (rule persist_registered_atomic)
  have d: "registered_ids (fst (register_callback to_list rt IoOk self cid disk)) =
            insert cid (registered_ids self)
          \<and> reload_agrees rt p (snd (register_callback to_list rt IoOk self cid disk))
                (fst (register_callback to_list rt IoOk self cid disk))"
    if "cid \<notin> registered_ids self" "is_allowed self cid"
  proof -
    let ?s = "self\<lparr>registered_ids := insert cid (registered_ids self)\<rparr>"
    from that have r: "register_callback to_list rt IoOk self cid disk =
        (?s, persist_registered to_list rt IoOk ?s disk)"
      by (auto simp: register_callback_def is_allowed_def split: if_splits)
    have "reload_agrees rt p (persist_registered to_list rt IoOk ?s disk) ?s"
      by (rule persist_registered_reload) (simp_all add: enum assms(2-5))
    with r show ?thesis by simp
  qed
  have e: "registered_ids (fst (handle_unregister to_list rt IoOk self cid disk)) =
            registered_ids self - {cid}
          \<and> reload_agrees rt p (snd (handle_unregister to_list rt IoOk self cid disk))
                (fst (handle_unregister to_list rt IoOk self cid disk))"
    if "cid \<in> registered_ids self"
  proof -
    let ?s = "self\<lparr>registered_ids := registered_ids self - {cid}\<rparr>"
    from that have r: "handle_unregister to_list rt IoOk self cid disk =
        (?s, persist_registered to_list rt IoOk ?s disk)"
      by (simp add: handle_unregister_def)
    have "reload_agrees rt p (persist_registered to_list rt IoOk ?s disk) ?s"
      by (rule persist_registered_reload) (simp_all add: enum assms(2-5))
    with r show ?thesis by simp
  qed
  have f: "mode (fst (reconfigure_console to_list rt io_setup IoOk self new_cfg disk)) =
            new_mode new_cfg
          \<and> admin_ids (fst (reconfigure_console to_list rt io_setup IoOk self new_cfg disk)) =
            set (new_admin_ids new_cfg)
          \<and> reload_agrees rt p (snd (reconfigure_console to_list rt io_setup IoOk self new_cfg disk))
                (fst (reconfigure_console to_list rt io_setup IoOk self new_cfg disk))"
    if "truthy rt (new_token new_cfg)"
  proof -
    let ?s = "self\<lparr>token := new_token new_cfg, mode := new_mode new_cfg,
                       admin_ids := set (new_admin_ids new_cfg),
                       poll_interval := new_poll_interval new_cfg\<rparr>"
    let ?d = "snd (safe_write_json io_setup DATA_FILE
                    (JObj [(''platform'', platform self), (''bot_token'', new_token new_cfg),
                           (''mode'', new_mode new_cfg),
                           (''admin_ids'', JArr (map JInt (new_admin_ids new_cfg))),
                           (''registered_ids'', JArr []),
                           (''poll_interval'', JInt (new_poll_interval new_cfg))])
                    disk)"
    have r: "reconfigure_console to_list rt io_setup IoOk self new_cfg disk =
        (?s, persist_registered to_list rt IoOk ?s ?d)"
      by (simp add: reconfigure_console_def Let_def)
    have dfile: "?d DATA_FILE = Absent \<or> ?d DATA_FILE = Corrupt
         \<or> (\<exists>cfg. ?d DATA_FILE = Holds (JObj cfg))"
      using assms(5)
      by (cases io_setup) (auto simp: safe_write_json_def DATA_FILE_def TEMP_DATA_FILE_def)
    have "reload_agrees rt p (persist_registered to_list rt IoOk ?s ?d) ?s"
      by (rule persist_registered_reload) (simp_all add: enum assms(2-5) that dfile)
    with r show ?thesis by simp
  qed
  from a b c d e f show ?thesis by blast
qed

theorem persistence_round_trips_witness:
  "(let rt = \<lparr>float_of_str = (\<lambda>s. None), float_of_int = Some, float_nonzero = (\<lambda>x. x \<noteq> 0),
            format_0f = str_int, int_of_float = Some, int_of_str = (\<lambda>s. None),
            json_loads = (\<lambda>s. None)\<rparr> :: int runtime;
        self = \<lparr>platform = JStr ''linux'', poll_interval = 5, token = JStr ''1:a'',
              registered_ids = {0, 1, 2}, admin_ids = {7}, mode = JStr ''multi'',
              prev_plugged = Some True\<rparr> :: int bot;
        new_cfg = \<lparr>new_token = JStr ''2:b'', new_mode = JStr ''admin'', new_admin_ids = [7, 9],
                 new_poll_interval = 10\<rparr> :: int setup_result;
        disk = (\<lambda>path. Absent)
    in finite (registered_ids self) \<and> finite (admin_ids self) \<and> truthy rt (token self)
       \<and> disk DATA_FILE = Absent
       \<and> reload_agrees rt ''linux'' (persist_registered sorted_list_of_set rt IoOk self disk) self
       \<and> persist_registered sorted_list_of_set rt ReplaceFails self disk DATA_FILE = Absent
       \<and> registered_ids (fst (register_callback sorted_list_of_set rt IoOk self 5 disk)) =
            {0, 1, 2, 5}
       \<and> reload_agrees rt ''linux''
            (snd (register_callback sorted_list_of_set rt IoOk self 5 disk))
            (fst (register_callback sorted_list_of_set rt IoOk self 5 disk))
       \<and> reload_agrees rt ''linux''
            (snd (reconfigure_console sorted_list_of_set rt IoOk IoOk self new_cfg disk))
            (fst (reconfigure_console sorted_list_of_set rt IoOk IoOk self new_cfg disk)))"
  using persistence_round_trips [where to_list = sorted_list_of_set
      and rt = "\<lparr>float_of_str = (\<lambda>s. None), float_of_int = Some, float_nonzero = (\<lambda>x. x \<noteq> 0),
            format_0f = str_int, int_of_float = Some, int_of_str = (\<lambda>s. None),
            json_loads = (\<lambda>s. None)\<rparr> :: int runtime"
      and self = "\<lparr>platform = JStr ''linux'', poll_interval = 5, token = JStr ''1:a'',
              registered_ids = {0, 1, 2}, admin_ids = {7}, mode = JStr ''multi'',
              prev_plugged = Some True\<rparr> :: int bot"
      and new_cfg = "\<lparr>new_token = JStr ''2:b'', new_mode = JStr ''admin'', new_admin_ids = [7, 9],
                 new_poll_interval = 10\<rparr> :: int setup_result"
      and disk = "\<lambda>path. Absent" and p = "''linux''" and io = ReplaceFails
      and io_setup = IoOk and cid = 5]
  by (auto simp: Let_def is_allowed_def persist_registered_def safe_read_json_def
      safe_write_json_def DATA_FILE_def TEMP_DATA_FILE_def)

end
